theory Spec2Isabelle
  imports Main "HOL-Library.AList" "HOL-Library.Sublist"
begin

section \<open>Python values and string primitives\<close>

text \<open>
  The program is a Python script (\<^verbatim>\<open>music.py\<close>). Its functions are embedded as HOL functions
  over an explicit file system and an explicit environment for everything the script reaches
  outside itself (the transcoder, the metadata service, the JSON parser, the markup parser of
  the console, the user's answers).
  Strings and byte strings are both lists of \<^typ>\<open>char\<close>. A \<^typ>\<open>char\<close> is one of the 256
  code points below \<^verbatim>\<open>U+0100\<close> (Latin-1), a byte when it stands in a byte string; text with
  other code points is outside the model. The whitespace and case tables below are Python's
  on these code points.
\<close>

type_synonym bytes = string

datatype py_exn =
  AttributeError | TypeError | ValueError | OSError | ServiceError | MarkupError | EOFError

text \<open>
  An exception caught by an \<^verbatim>\<open>except Exception as e\<close> handler that prints \<^verbatim>\<open>{e}\<close>: its kind and
  the program data its text carries (a path, the text of the service, a tag value); the list
  is empty for an exception whose text is made by Python alone.
\<close>

type_synonym caught = "py_exn \<times> string list"

text \<open>
  \<^verbatim>\<open>str.isspace\<close>, which is also what \<^verbatim>\<open>str.strip()\<close> removes and what \<^verbatim>\<open>\s\<close> matches in a
  pattern on text: TAB, LF, VT, FF, CR, FS, GS, RS, US, the blank, NEL (\<^verbatim>\<open>U+0085\<close>) and the
  no-break space (\<^verbatim>\<open>U+00A0\<close>).
\<close>

definition py_isspace :: "char \<Rightarrow> bool" where
  "py_isspace c \<longleftrightarrow>
     c \<in> set [CHR 0x09, CHR 0x0A, CHR 0x0B, CHR 0x0C, CHR 0x0D,
               CHR 0x1C, CHR 0x1D, CHR 0x1E, CHR 0x1F, CHR 0x20, CHR 0x85, CHR 0xA0]"

text \<open>\<^verbatim>\<open>s.strip(chars)\<close>: drop the characters satisfying \<open>P\<close> from both ends.\<close>

definition strip_where :: "(char \<Rightarrow> bool) \<Rightarrow> string \<Rightarrow> string" where
  "strip_where P s = rev (dropWhile P (rev (dropWhile P s)))"

definition py_strip :: "string \<Rightarrow> string" where
  "py_strip s = strip_where py_isspace s"

text \<open>
  \<^verbatim>\<open>str.lower\<close>, character by character: the capital letters \<^verbatim>\<open>A\<close>--\<^verbatim>\<open>Z\<close>, \<^verbatim>\<open>U+00C0\<close>--\<^verbatim>\<open>U+00D6\<close>
  and \<^verbatim>\<open>U+00D8\<close>--\<^verbatim>\<open>U+00DE\<close> go to their small letters; every other code point of the model
  stays (the multiplication sign \<^verbatim>\<open>U+00D7\<close> and the sharp s \<^verbatim>\<open>U+00DF\<close> among them).
\<close>

definition upper_letters :: string where
  "upper_letters =
     ''ABCDEFGHIJKLMNOPQRSTUVWXYZ'' @
     [CHR 0xC0, CHR 0xC1, CHR 0xC2, CHR 0xC3, CHR 0xC4, CHR 0xC5, CHR 0xC6, CHR 0xC7,
      CHR 0xC8, CHR 0xC9, CHR 0xCA, CHR 0xCB, CHR 0xCC, CHR 0xCD, CHR 0xCE, CHR 0xCF,
      CHR 0xD0, CHR 0xD1, CHR 0xD2, CHR 0xD3, CHR 0xD4, CHR 0xD5, CHR 0xD6,
      CHR 0xD8, CHR 0xD9, CHR 0xDA, CHR 0xDB, CHR 0xDC, CHR 0xDD, CHR 0xDE]"

definition lower_letters :: string where
  "lower_letters =
     ''abcdefghijklmnopqrstuvwxyz'' @
     [CHR 0xE0, CHR 0xE1, CHR 0xE2, CHR 0xE3, CHR 0xE4, CHR 0xE5, CHR 0xE6, CHR 0xE7,
      CHR 0xE8, CHR 0xE9, CHR 0xEA, CHR 0xEB, CHR 0xEC, CHR 0xED, CHR 0xEE, CHR 0xEF,
      CHR 0xF0, CHR 0xF1, CHR 0xF2, CHR 0xF3, CHR 0xF4, CHR 0xF5, CHR 0xF6,
      CHR 0xF8, CHR 0xF9, CHR 0xFA, CHR 0xFB, CHR 0xFC, CHR 0xFD, CHR 0xFE]"

definition lower_char :: "char \<Rightarrow> char" where
  "lower_char c =
     (case map_of (zip upper_letters lower_letters) c of
        Some d \<Rightarrow> d
      | None \<Rightarrow> c)"

definition py_lower :: "string \<Rightarrow> string" where
  "py_lower s = map lower_char s"

text \<open>\<^verbatim>\<open>sep.join(xs)\<close> for a list of strings.\<close>

fun join :: "string \<Rightarrow> string list \<Rightarrow> string" where
  "join sep [] = []"
| "join sep [x] = x"
| "join sep (x # y # ys) = x @ sep @ join sep (y # ys)"

text \<open>Decimal rendering of a non-negative integer, as an f-string or \<^verbatim>\<open>str\<close> prints it.\<close>

definition digit_char :: "nat \<Rightarrow> char" where
  "digit_char d = ''0123456789'' ! d"

fun str_nat :: "nat \<Rightarrow> string" where
  "str_nat n = (if n < 10 then [digit_char n] else str_nat (n div 10) @ [digit_char (n mod 10)])"

declare str_nat.simps [simp del]

definition str_int :: "int \<Rightarrow> string" where
  "str_int i = (if i < 0 then CHR ''-'' # str_nat (nat (- i)) else str_nat (nat i))"


section \<open>Files and the file system\<close>

text \<open>
  A path is a directory (its components) and a file name. A file is modelled by the two
  views the script has of it: the raw bytes that \<^verbatim>\<open>open(path, 'rb')\<close> reads, and the list of
  Vorbis comments that \<^verbatim>\<open>mutagen.flac.FLAC(path)\<close> parses out of it (\<open>None\<close> when mutagen
  raises on the file's structure). Two files are byte-identical when both views agree. The
  file system is a finite association list from paths to files; only regular files are kept
  in it. Its directories are the directories that hold these files, and the further ones the
  environment lists (\<open>dirs_of\<close> below).
\<close>

record path =
  parent :: "string list"
  name :: string

type_synonym comment = "string \<times> string"

record disk_file =
  raw :: bytes
  vorbis :: "comment list option"

type_synonym fs = "(path \<times> disk_file) list"

definition exists_file :: "fs \<Rightarrow> path \<Rightarrow> bool" where
  "exists_file fs p \<longleftrightarrow> map_of fs p \<noteq> None"


section \<open>Format detection\<close>

text \<open>
  \<^verbatim>\<open>detect_actual_format\<close>, lines 255--276. Python slices never raise: \<^verbatim>\<open>header[a:b]\<close> is
  \<open>drop a (take b header)\<close>, shorter than \<open>b - a\<close> when the header is. The chain of
  comparisons is the source's, in its order.
\<close>

definition detect_header :: "bytes \<Rightarrow> string" where
  "detect_header header =
     (if take 4 header = ''fLaC'' then ''flac''
      else if take 4 header = ''RIFF'' \<and> drop 8 (take 12 header) = ''WAVE'' then ''wav''
      else if take 3 header = ''ID3'' \<or> take 2 header = [CHR 0xFF, CHR 0xFB] then ''mp3''
      else if take 4 header = ''OggS'' then ''ogg''
      else if drop 4 (take 8 header) = ''ftyp''
            \<or> take 4 header = [CHR 0x00, CHR 0x00, CHR 0x00, CHR 0x18]
            \<or> take 4 header = [CHR 0x00, CHR 0x00, CHR 0x00, CHR 0x1C]
            \<or> take 4 header = [CHR 0x00, CHR 0x00, CHR 0x00, CHR 0x20]
      then ''m4a''
      else ''unknown'')"

text \<open>Opening a missing file raises inside the \<^verbatim>\<open>try\<close>; the handler answers \<^verbatim>\<open>'unknown'\<close>.\<close>

definition detect_actual_format :: "fs \<Rightarrow> path \<Rightarrow> string" where
  "detect_actual_format fs file_path =
     (case map_of fs file_path of
        None \<Rightarrow> ''unknown''
      | Some f \<Rightarrow> detect_header (take 12 (raw f)))"


section \<open>The tag handle\<close>

text \<open>
  A \<^verbatim>\<open>mutagen.flac.FLAC\<close> object: the file it was opened from and its Vorbis comments, an
  ordered list of key/value pairs in which a key may repeat. Keys compare without regard to
  case. \<open>vc_get\<close> is \<^verbatim>\<open>audio[key]\<close>, the values under a key in order; mutagen raises
  \<^verbatim>\<open>KeyError\<close> exactly when that list is empty, and \<^verbatim>\<open>key in audio\<close> holds exactly when it
  is not.
\<close>

record audio =
  opened_from :: path
  tags :: "comment list"

definition vc_get :: "comment list \<Rightarrow> string \<Rightarrow> string list" where
  "vc_get cs key = map snd (filter (\<lambda>kv. py_lower (fst kv) = py_lower key) cs)"

datatype diagnostic = CannotOpen | NotFlacHeader bytes | MalformedFlac

text \<open>
  \<^verbatim>\<open>validate_flac_file\<close>, lines 200--213. The Python answers a pair \<^verbatim>\<open>(False, message)\<close> or
  \<^verbatim>\<open>(True, audio)\<close>; here \<open>Inl\<close> carries the diagnostic and \<open>Inr\<close> the handle.
\<close>

definition validate_flac_file :: "fs \<Rightarrow> path \<Rightarrow> diagnostic + audio" where
  "validate_flac_file fs file_path =
     (case map_of fs file_path of
        None \<Rightarrow> Inl CannotOpen
      | Some f \<Rightarrow>
          (let header = take 4 (raw f) in
           if header \<noteq> ''fLaC'' then Inl (NotFlacHeader (take 20 header))
           else (case vorbis f of
                   None \<Rightarrow> Inl MalformedFlac
                 | Some cs \<Rightarrow> Inr \<lparr>opened_from = file_path, tags = cs\<rparr>)))"


section \<open>Required metadata\<close>

text \<open>\<^verbatim>\<open>has_proper_metadata\<close>, lines 216--239.\<close>

definition required_fields :: "(string \<times> string list) list" where
  "required_fields =
     [(''composer'', [''COMPOSER'']),
      (''work'', [''ALBUM'', ''WORK'']),
      (''title'', [''TITLE'']),
      (''artist'', [''ARTIST'', ''ALBUMARTIST''])]"

text \<open>
  The test of line 231, \<^verbatim>\<open>tag in audio and audio[tag] and audio[tag][0].strip()\<close>: the tag
  is there and the first of its values is not blank.
\<close>

definition tag_has_value :: "audio \<Rightarrow> string \<Rightarrow> bool" where
  "tag_has_value a tag =
     (case vc_get (tags a) tag of
        [] \<Rightarrow> False
      | v # _ \<Rightarrow> py_strip v \<noteq> [])"

definition has_proper_metadata :: "audio \<Rightarrow> bool \<times> string list" where
  "has_proper_metadata a =
     (let missing = map fst (filter (\<lambda>fo. \<not> list_ex (tag_has_value a) (snd fo)) required_fields)
      in if missing \<noteq> [] then (False, missing) else (True, []))"


section \<open>The snapshot of existing tags\<close>

text \<open>
  \<^verbatim>\<open>get_current_metadata\<close>, lines 242--252. A tag with exactly one value is copied as that
  string, a tag with several as the list of them (line 250); a tag without values is left
  out. The dictionary is kept as an association list in the order of \<open>snapshot_fields\<close>.
\<close>

datatype tagval = Single string | Multi "string list"

type_synonym snapshot = "(string \<times> tagval) list"

definition snapshot_fields :: "string list" where
  "snapshot_fields =
     [''COMPOSER'', ''ALBUM'', ''WORK'', ''TITLE'', ''ARTIST'', ''ALBUMARTIST'',
      ''ORCHESTRA'', ''ENSEMBLE'', ''PERFORMER'', ''DATE'', ''DISCNUMBER'', ''TRACKNUMBER'']"

definition snapshot_entry :: "audio \<Rightarrow> string \<Rightarrow> snapshot" where
  "snapshot_entry a field =
     (case vc_get (tags a) field of
        [] \<Rightarrow> []
      | [v] \<Rightarrow> [(field, Single v)]
      | v # w # vs \<Rightarrow> [(field, Multi (v # w # vs))])"

definition get_current_metadata :: "audio \<Rightarrow> snapshot" where
  "get_current_metadata a = concat (map (snapshot_entry a) snapshot_fields)"


section \<open>Parsed replies and the environment\<close>

text \<open>
  What \<^verbatim>\<open>json.loads\<close> can hand back: \<^verbatim>\<open>None\<close>, a boolean, an integer, a string, a list or
  a dictionary (numbers are integers here). \<open>truthy\<close> is Python's truth test on such a
  value, \<open>dict_get\<close> is \<^verbatim>\<open>d.get(key)\<close>.
\<close>

datatype json =
    JNull
  | JBool bool
  | JInt int
  | JStr string
  | JArr "json list"
  | JObj "(string \<times> json) list"

fun truthy :: "json \<Rightarrow> bool" where
  "truthy JNull = False"
| "truthy (JBool b) = b"
| "truthy (JInt i) = (i \<noteq> 0)"
| "truthy (JStr s) = (s \<noteq> [])"
| "truthy (JArr xs) = (xs \<noteq> [])"
| "truthy (JObj kvs) = (kvs \<noteq> [])"

definition dict_get :: "(string \<times> json) list \<Rightarrow> string \<Rightarrow> json" where
  "dict_get kvs key = (case map_of kvs key of Some v \<Rightarrow> v | None \<Rightarrow> JNull)"

fun the_str :: "json \<Rightarrow> string option" where
  "the_str (JStr s) = Some s"
| "the_str _ = None"

datatype ffmpeg_result =
    FfmpegRaised
  | FfmpegExit int string "disk_file option"

datatype api_result =
    ApiRaised string
  | ApiContent string

text \<open>
  Everything the script reaches outside itself is a field of the environment:
  \<^item> \<open>home\<close>: the user's home directory (\<^verbatim>\<open>Path.home()\<close>);
  \<^item> \<open>which_ffmpeg\<close>: whether \<^verbatim>\<open>shutil.which('ffmpeg')\<close> finds the transcoder;
  \<^item> \<open>mkdir_ok\<close>: whether the backup directory exists or can be created;
  \<^item> \<open>ffmpeg\<close>: what running the transcoder on an input path and its content does, either
    raising in \<^verbatim>\<open>subprocess.run\<close> (with a text made by Python alone) or exiting with a
    return code and a text on its error stream, having written the given file to the output
    path or none. The transcoder does not touch its input, and it exits with an error when
    its input or its output path is a directory;
  \<^item> \<open>chat\<close>: the metadata service, from the file name, the sibling names of the prompt and
    the existing metadata to the text of its reply; any exception of the call, and a reply
    without text, is \<open>ApiRaised\<close> with the text of the exception;
  \<^item> \<open>json_loads\<close>: \<^verbatim>\<open>json.loads\<close>, \<open>None\<close> when it raises (the text of its exception names a
    position, and nothing of the reply);
  \<^item> \<open>repr_container\<close>: what \<^verbatim>\<open>str\<close> prints for a list or a dictionary;
  \<^item> \<open>save_fails\<close>: the files mutagen cannot write (read-only, say);
  \<^item> \<open>confirm\<close>: the user's answer to the prompt of line 646 for a file, \<open>None\<close> when the
    input has ended and the prompt raises \<^verbatim>\<open>EOFError\<close>;
  \<^item> \<open>folder_exists\<close>: the folders that exist;
  \<^item> \<open>directories\<close>: the directories that hold no file of the file system;
  \<^item> \<open>markup_error\<close>: the markup parser of \<^verbatim>\<open>rich\<close>. The script prints f-strings as console
    markup, so that program data interpolated into them is parsed for tags as well. For a
    print, named by its line in \<^verbatim>\<open>music.py\<close>, and the program data interpolated into what it
    prints, the answer is \<open>Some message\<close> when the parser raises \<^verbatim>\<open>MarkupError\<close> with that
    message, as it does for a text with a closing tag that closes nothing (\<^verbatim>\<open>[/html]\<close>), and
    \<open>None\<close> when the print goes through.
\<close>

record env =
  home :: "string list"
  which_ffmpeg :: bool
  mkdir_ok :: bool
  ffmpeg :: "path \<Rightarrow> disk_file option \<Rightarrow> ffmpeg_result"
  chat :: "string \<Rightarrow> string list \<Rightarrow> snapshot \<Rightarrow> api_result"
  json_loads :: "string \<Rightarrow> json option"
  repr_container :: "json \<Rightarrow> string"
  save_fails :: "path \<Rightarrow> bool"
  confirm :: "path \<Rightarrow> bool option"
  folder_exists :: "string list \<Rightarrow> bool"
  directories :: "path list"
  markup_error :: "nat \<Rightarrow> string list \<Rightarrow> string option"

text \<open>
  \<^verbatim>\<open>console.print\<close> of markup with program data in it. A print without program data is a
  print of well-formed markup and goes through. \<open>rich_print\<close> is a print outside any \<^verbatim>\<open>try\<close>,
  whose \<^verbatim>\<open>MarkupError\<close> escapes; \<open>try_print\<close> is a print inside a \<^verbatim>\<open>try\<close>, whose \<^verbatim>\<open>MarkupError\<close>
  is caught, the text of the exception being the parser's message.
\<close>

definition rich_print :: "env \<Rightarrow> nat \<Rightarrow> string list \<Rightarrow> py_exn + unit" where
  "rich_print env line texts =
     (if texts = [] then Inr ()
      else (case markup_error env line texts of
              None \<Rightarrow> Inr ()
            | Some message \<Rightarrow> Inl MarkupError))"

definition try_print :: "env \<Rightarrow> nat \<Rightarrow> string list \<Rightarrow> caught + unit" where
  "try_print env line texts =
     (if texts = [] then Inr ()
      else (case markup_error env line texts of
              None \<Rightarrow> Inr ()
            | Some message \<Rightarrow> Inl (MarkupError, [message])))"

text \<open>
  The directories of the file system: every directory above a file or above a listed
  directory, and the listed directories. A path exists when it is a file or a directory.
\<close>

definition ancestors :: "path \<Rightarrow> path list" where
  "ancestors q = map (\<lambda>d. \<lparr>parent = butlast d, name = last d\<rparr>) (tl (prefixes (parent q)))"

definition dirs_of :: "env \<Rightarrow> fs \<Rightarrow> path list" where
  "dirs_of env fs =
     concat (map (\<lambda>d. d # ancestors d) (directories env)) @ concat (map ancestors (map fst fs))"

definition is_dir :: "env \<Rightarrow> fs \<Rightarrow> path \<Rightarrow> bool" where
  "is_dir env fs p \<longleftrightarrow> p \<in> set (dirs_of env fs)"

definition path_exists :: "env \<Rightarrow> fs \<Rightarrow> path \<Rightarrow> bool" where
  "path_exists env fs p \<longleftrightarrow> exists_file fs p \<or> is_dir env fs p"

text \<open>
  The text of a path, \<^verbatim>\<open>str(path)\<close>, and the program data in the message of a failed
  validation (lines 207 and 213): the header bytes, or the path that the exception of
  \<^verbatim>\<open>open\<close> or of mutagen names.
\<close>

definition path_text :: "path \<Rightarrow> string" where
  "path_text p = join ''/'' (parent p @ [name p])"

definition diagnostic_texts :: "path \<Rightarrow> diagnostic \<Rightarrow> string list" where
  "diagnostic_texts p d = (case d of NotFlacHeader h \<Rightarrow> [h] | _ \<Rightarrow> [path_text p])"

text \<open>\<^verbatim>\<open>str(v)\<close>.\<close>

definition py_str :: "env \<Rightarrow> json \<Rightarrow> string" where
  "py_str env v =
     (case v of
        JStr s \<Rightarrow> s
      | JInt i \<Rightarrow> str_int i
      | JBool b \<Rightarrow> (if b then ''True'' else ''False'')
      | JNull \<Rightarrow> ''None''
      | _ \<Rightarrow> repr_container env v)"

text \<open>
  \<^verbatim>\<open>sep.join(v)\<close>: a list of strings is joined, a string is joined character by character, a
  dictionary by its keys; a list with an item that is no string, and a value that cannot be
  iterated, raise \<^verbatim>\<open>TypeError\<close>.
\<close>

definition py_join :: "string \<Rightarrow> json \<Rightarrow> py_exn + string" where
  "py_join sep v =
     (case v of
        JArr xs \<Rightarrow> (case those (map the_str xs) of
                      Some ss \<Rightarrow> Inr (join sep ss)
                    | None \<Rightarrow> Inl TypeError)
      | JStr s \<Rightarrow> Inr (join sep (map (\<lambda>c. [c]) s))
      | JObj kvs \<Rightarrow> Inr (join sep (map fst kvs))
      | _ \<Rightarrow> Inl TypeError)"


section \<open>Writing tags\<close>

text \<open>
  \<^verbatim>\<open>audio[key] = value\<close> on the comments in memory: the old values of the key go, and the new
  value is appended, item by item when it is a list.
\<close>

definition put_tag :: "string \<Rightarrow> json \<Rightarrow> (string \<times> json) list \<Rightarrow> (string \<times> json) list" where
  "put_tag key v ts =
     filter (\<lambda>kv. py_lower (fst kv) \<noteq> py_lower key) ts
       @ map (Pair key) (case v of JArr xs \<Rightarrow> xs | _ \<Rightarrow> [v])"

text \<open>
  Lines 367--401 of \<^verbatim>\<open>apply_metadata_to_flac\<close>: \<^verbatim>\<open>audio.clear()\<close> empties the comments, then
  each field of the record that is truthy is assigned. \<^verbatim>\<open>metadata.get\<close> raises
  \<^verbatim>\<open>AttributeError\<close> on anything but a dictionary.
\<close>

definition tag_assignments :: "env \<Rightarrow> json \<Rightarrow> py_exn + (string \<times> json) list" where
  "tag_assignments env metadata =
     (case metadata of
        JObj kvs \<Rightarrow>
          (let get = dict_get kvs;
               t0 = [];
               t1 = (if truthy (get ''composer'')
                     then put_tag ''COMPOSER'' (get ''composer'') t0 else t0);
               t2 = (if truthy (get ''work'')
                     then put_tag ''WORK'' (get ''work'') (put_tag ''ALBUM'' (get ''work'') t1)
                     else t1);
               t3 = (if truthy (get ''movement'') then put_tag ''TITLE'' (get ''movement'') t2
                     else if truthy (get ''work'') then put_tag ''TITLE'' (get ''work'') t2
                     else t2);
               r4 = (if truthy (get ''performers'')
                     then (case py_join '', '' (get ''performers'') of
                             Inl e \<Rightarrow> Inl e
                           | Inr s \<Rightarrow> Inr (put_tag ''ALBUMARTIST'' (JStr s)
                                               (put_tag ''ARTIST'' (JStr s) t3)))
                     else Inr t3)
           in case r4 of
                Inl e \<Rightarrow> Inl e
              | Inr t4 \<Rightarrow>
                  (let t5 = (if truthy (get ''orchestra'')
                             then put_tag ''ENSEMBLE'' (get ''orchestra'')
                                    (put_tag ''ORCHESTRA'' (get ''orchestra'') t4)
                             else t4);
                       t6 = (if truthy (get ''soloists'')
                             then put_tag ''PERFORMER'' (get ''soloists'') t5 else t5);
                       t7 = (if truthy (get ''date'')
                             then put_tag ''DATE'' (JStr (py_str env (get ''date''))) t6 else t6);
                       t8 = (if truthy (get ''disc'')
                             then put_tag ''DISCNUMBER'' (JStr (py_str env (get ''disc''))) t7
                             else t7);
                       t9 = (if truthy (get ''track'')
                             then put_tag ''TRACKNUMBER'' (JStr (py_str env (get ''track''))) t8
                             else t8)
                   in Inr t9))
      | _ \<Rightarrow> Inl AttributeError)"

text \<open>
  \<^verbatim>\<open>audio.save()\<close>: mutagen first checks that every value is a string (\<^verbatim>\<open>ValueError\<close>
  otherwise, its text showing the first value that is none), then rewrites the comment
  block of the file it was opened from (the text of a failure names the path). A save that
  raises leaves the file as it was.
\<close>

definition flac_save :: "env \<Rightarrow> fs \<Rightarrow> path \<Rightarrow> (string \<times> json) list \<Rightarrow> caught + fs" where
  "flac_save env fs p ts =
     (case those (map (the_str \<circ> snd) ts) of
        None \<Rightarrow>
          Inl (ValueError,
               map (py_str env) (take 1 (filter (\<lambda>v. the_str v = None) (map snd ts))))
      | Some vs \<Rightarrow>
          (case map_of fs p of
             None \<Rightarrow> Inl (OSError, [path_text p])
           | Some f \<Rightarrow>
               if take 4 (raw f) \<noteq> ''fLaC'' \<or> vorbis f = None \<or> save_fails env p
               then Inl (OSError, [path_text p])
               else Inr (AList.update p (f\<lparr>vorbis := Some (zip (map fst ts) vs)\<rparr>) fs)))"

text \<open>
  The body of the \<^verbatim>\<open>try\<close> of \<^verbatim>\<open>apply_metadata_to_flac\<close>, lines 359--404: the handle is the one
  given or comes from validating the file (line 363 prints the message of a failed
  validation). The exceptions of the assignments have texts made by Python alone.
\<close>

definition apply_metadata_body ::
  "env \<Rightarrow> fs \<Rightarrow> path \<Rightarrow> json \<Rightarrow> audio option \<Rightarrow> caught + bool \<times> fs" where
  "apply_metadata_body env fs file_path metadata audio_arg =
     (case (case audio_arg of
              Some a \<Rightarrow> Inr a
            | None \<Rightarrow> validate_flac_file fs file_path) of
        Inl d \<Rightarrow>
          (case try_print env 363 (diagnostic_texts file_path d) of
             Inl c \<Rightarrow> Inl c
           | Inr u \<Rightarrow> Inr (False, fs))
      | Inr a \<Rightarrow>
          (case tag_assignments env metadata of
             Inl e \<Rightarrow> Inl (e, [])
           | Inr ts \<Rightarrow>
               (case flac_save env fs (opened_from a) ts of
                  Inl c \<Rightarrow> Inl c
                | Inr fs' \<Rightarrow> Inr (True, fs'))))"

text \<open>
  \<^verbatim>\<open>apply_metadata_to_flac\<close>, lines 356--407: every exception of the body is caught, its text
  is printed (line 406) and the answer is \<^verbatim>\<open>False\<close>. A \<^verbatim>\<open>MarkupError\<close> of that print is raised
  in the handler and escapes.
\<close>

definition apply_metadata_to_flac ::
  "env \<Rightarrow> fs \<Rightarrow> path \<Rightarrow> json \<Rightarrow> audio option \<Rightarrow> py_exn + bool \<times> fs" where
  "apply_metadata_to_flac env fs file_path metadata audio_arg =
     (case apply_metadata_body env fs file_path metadata audio_arg of
        Inl (e, texts) \<Rightarrow>
          (case rich_print env 406 texts of
             Inl e' \<Rightarrow> Inl e'
           | Inr u \<Rightarrow> Inr (False, fs))
      | Inr r \<Rightarrow> Inr r)"


section \<open>Deriving metadata from the service\<close>

text \<open>
  Lines 184--191 of \<^verbatim>\<open>get_metadata_from_openrouter\<close>. \<open>fence\<close> is the triple backquote.
  \<open>search_json_fence\<close> is \<^verbatim>\<open>re.search(r'```json\s*(.*?)\s*```', text, re.DOTALL)\<close>, answering
  group 1: at the leftmost place where the text reads \<open>fence\<close> and \<^verbatim>\<open>json\<close>, the white space
  that follows is skipped, and the group is the shortest text after which, white space
  skipped, a \<open>fence\<close> stands (\<open>lazy_group\<close>).
\<close>

definition fence :: string where
  "fence = replicate 3 (CHR 0x60)"

fun lazy_group :: "string \<Rightarrow> string option" where
  "lazy_group [] = None"
| "lazy_group (c # cs) =
     (if prefix fence (dropWhile py_isspace (c # cs)) then Some []
      else map_option ((#) c) (lazy_group cs))"

fun search_json_fence :: "string \<Rightarrow> string option" where
  "search_json_fence [] = None"
| "search_json_fence (c # cs) =
     (if prefix (fence @ ''json'') (c # cs)
      then (case lazy_group (dropWhile py_isspace (drop 7 (c # cs))) of
              Some g \<Rightarrow> Some g
            | None \<Rightarrow> search_json_fence cs)
      else search_json_fence cs)"

definition extract_json :: "string \<Rightarrow> string" where
  "extract_json text =
     (case search_json_fence text of
        Some g \<Rightarrow> g
      | None \<Rightarrow>
          if prefix fence text \<and> suffix fence text
          then (let t = py_strip (strip_where (\<lambda>c. c = CHR 0x60) text)
                in if prefix ''json'' t then py_strip (drop 4 t) else t)
          else text)"

text \<open>
  The body of the \<^verbatim>\<open>try\<close>, lines 176--194: the call, the reply's text stripped, the fence
  removed, \<^verbatim>\<open>json.loads\<close>. The prompt carries the first ten sibling names (line 143).
\<close>

definition request_and_parse ::
  "env \<Rightarrow> string \<Rightarrow> string list \<Rightarrow> snapshot \<Rightarrow> caught + json" where
  "request_and_parse env filename context_files existing_metadata =
     (case chat env filename (take 10 context_files) existing_metadata of
        ApiRaised text \<Rightarrow> Inl (ServiceError, [text])
      | ApiContent content \<Rightarrow>
          (case json_loads env (extract_json (py_strip content)) of
             None \<Rightarrow> Inl (ValueError, [])
           | Some metadata \<Rightarrow> Inr metadata))"

text \<open>
  \<^verbatim>\<open>get_metadata_from_openrouter\<close>, lines 138--197: the handler of \<^verbatim>\<open>except Exception as e\<close>
  prints the text of the exception as markup (line 196) and answers \<^verbatim>\<open>None\<close>, which is
  \<open>JNull\<close>. A \<^verbatim>\<open>MarkupError\<close> of that print is raised in the handler and escapes.
\<close>

definition get_metadata_from_openrouter ::
  "env \<Rightarrow> string \<Rightarrow> string list \<Rightarrow> snapshot \<Rightarrow> py_exn + json" where
  "get_metadata_from_openrouter env filename context_files existing_metadata =
     (case request_and_parse env filename context_files existing_metadata of
        Inl (e, texts) \<Rightarrow>
          (case rich_print env 196 texts of
             Inl e' \<Rightarrow> Inl e'
           | Inr u \<Rightarrow> Inr JNull)
      | Inr metadata \<Rightarrow> Inr metadata)"

text \<open>
  \<^verbatim>\<open>display_metadata_table\<close>, lines 410--422. \<^verbatim>\<open>metadata.items()\<close> raises on anything but a
  dictionary. The table gets a row for every item whose value is truthy: the key and the
  text of the value, a list being joined from the texts of its items. The cells are parsed
  as markup when the table is printed (line 422). A dictionary is read by the first entry
  of a key (\<open>dict_get\<close>), and \<open>dict_items\<close> lists it so.
\<close>

definition dict_items :: "(string \<times> json) list \<Rightarrow> (string \<times> json) list" where
  "dict_items kvs = map (\<lambda>key. (key, dict_get kvs key)) (remdups (map fst kvs))"

definition cell_text :: "env \<Rightarrow> json \<Rightarrow> string" where
  "cell_text env v =
     (case v of
        JArr xs \<Rightarrow> join '', '' (map (py_str env) xs)
      | _ \<Rightarrow> py_str env v)"

definition table_cells :: "env \<Rightarrow> (string \<times> json) list \<Rightarrow> string list" where
  "table_cells env items =
     concat (map (\<lambda>(key, v). if truthy v then [key, cell_text env v] else []) items)"

definition display_metadata_table :: "env \<Rightarrow> json \<Rightarrow> py_exn + unit" where
  "display_metadata_table env metadata =
     (case metadata of
        JObj kvs \<Rightarrow> rich_print env 422 (table_cells env (dict_items kvs))
      | _ \<Rightarrow> Inl AttributeError)"

text \<open>The snapshot of the existing tags as the dictionary that line 606 displays.\<close>

definition snapshot_json :: "snapshot \<Rightarrow> json" where
  "snapshot_json current_metadata =
     JObj (map (\<lambda>(field, v). (field, case v of Single s \<Rightarrow> JStr s | Multi vs \<Rightarrow> JArr (map JStr vs)))
             current_metadata)"


section \<open>Comparing new metadata with the existing tags\<close>

text \<open>
  Lines 618--637 of \<^verbatim>\<open>process_folder_audit\<close>. \<open>old_value\<close> is lines 630--632: the tag's
  string, the first item when it is a list, the empty string when the tag is missing.
  \<open>normalized\<close> is \<^verbatim>\<open>.lower().strip()\<close>. A new value that is truthy and no string has no
  \<^verbatim>\<open>lower\<close>: \<^verbatim>\<open>AttributeError\<close>.
\<close>

definition comparisons :: "(string \<times> string) list" where
  "comparisons = [(''composer'', ''COMPOSER''), (''work'', ''ALBUM''), (''movement'', ''TITLE'')]"

definition old_value :: "snapshot \<Rightarrow> string \<Rightarrow> string" where
  "old_value current_metadata old_key =
     (case map_of current_metadata old_key of
        None \<Rightarrow> []
      | Some (Single s) \<Rightarrow> s
      | Some (Multi vs) \<Rightarrow> (case vs of [] \<Rightarrow> [] | v # _ \<Rightarrow> v))"

definition normalized :: "string \<Rightarrow> string" where
  "normalized s = py_strip (py_lower s)"

type_synonym change = "string \<times> string \<times> string"

fun compare_fields ::
  "(string \<times> json) list \<Rightarrow> snapshot \<Rightarrow> (string \<times> string) list \<Rightarrow> bool \<times> change list
     \<Rightarrow> py_exn + bool \<times> change list" where
  "compare_fields new_metadata current_metadata [] acc = Inr acc"
| "compare_fields new_metadata current_metadata ((new_key, old_key) # rest) (changes_detected, changes_summary) =
     (let new_val = (if truthy (dict_get new_metadata new_key)
                     then dict_get new_metadata new_key else JStr []);
          old_val = old_value current_metadata old_key
      in if truthy new_val
         then (case new_val of
                 JStr s \<Rightarrow>
                   if normalized s \<noteq> normalized old_val
                   then compare_fields new_metadata current_metadata rest
                          (True, changes_summary @ [(old_key, old_val, s)])
                   else compare_fields new_metadata current_metadata rest
                          (changes_detected, changes_summary)
               | _ \<Rightarrow> Inl AttributeError)
         else compare_fields new_metadata current_metadata rest
                (changes_detected, changes_summary))"

definition detect_changes :: "json \<Rightarrow> snapshot \<Rightarrow> py_exn + bool \<times> change list" where
  "detect_changes new_metadata current_metadata =
     (case new_metadata of
        JObj kvs \<Rightarrow> compare_fields kvs current_metadata comparisons (False, [])
      | _ \<Rightarrow> Inl AttributeError)"

text \<open>
  Lines 640--641: the lines of the summary are printed as markup, with the old and the new
  value in them.
\<close>

fun print_changes :: "env \<Rightarrow> change list \<Rightarrow> py_exn + unit" where
  "print_changes env [] = Inr ()"
| "print_changes env ((old_key, old_val, new_val) # rest) =
     (case rich_print env 641 [old_val, new_val] of
        Inl e \<Rightarrow> Inl e
      | Inr u \<Rightarrow> print_changes env rest)"


section \<open>Conversion to FLAC\<close>

text \<open>
  \<^verbatim>\<open>Path.suffix\<close> and \<^verbatim>\<open>Path.stem\<close> of a file name: the name is cut at its last dot, unless
  that dot is the first or the last character.
\<close>

definition rfind_dot :: "string \<Rightarrow> nat option" where
  "rfind_dot s =
     (let r = takeWhile (\<lambda>c. c \<noteq> CHR ''.'') (rev s)
      in if length r = length s then None else Some (length s - length r - 1))"

definition path_suffix :: "string \<Rightarrow> string" where
  "path_suffix nm =
     (case rfind_dot nm of
        Some i \<Rightarrow> if 0 < i \<and> i < length nm - 1 then drop i nm else []
      | None \<Rightarrow> [])"

definition path_stem :: "string \<Rightarrow> string" where
  "path_stem nm =
     (case rfind_dot nm of
        Some i \<Rightarrow> if 0 < i \<and> i < length nm - 1 then take i nm else nm
      | None \<Rightarrow> nm)"

lemma path_stem_suffix: "path_stem nm @ path_suffix nm = nm"
  by (simp add: path_stem_def path_suffix_def split: option.splits)

lemma path_suffix_shape:
  "path_suffix nm = [] \<or> (\<exists>r. path_suffix nm = CHR ''.'' # r \<and> CHR ''.'' \<notin> set r)"
proof (cases "rfind_dot nm")
  case None
  then show ?thesis by (simp add: path_suffix_def)
next
  case (Some i)
  let ?P = "\<lambda>c. c \<noteq> CHR ''.''"
  let ?r = "takeWhile ?P (rev nm)"
  let ?d = "dropWhile ?P (rev nm)"
  from Some have neq: "length ?r \<noteq> length nm" and i: "i = length nm - length ?r - 1"
    by (auto simp: rfind_dot_def Let_def split: if_splits)
  have split: "rev nm = ?r @ ?d" by simp
  have dne: "?d \<noteq> []"
  proof
    assume "?d = []"
    with split have "rev nm = ?r" by simp
    then have "length nm = length ?r" by (metis length_rev)
    with neq show False by simp
  qed
  then have hd: "hd ?d = CHR ''.''" using hd_dropWhile[of ?P "rev nm"] by auto
  from dne hd obtain t where t: "?d = CHR ''.'' # t" by (cases ?d) auto
  have "nm = rev (?r @ ?d)" using split by (metis rev_rev_ident)
  with t have nm: "nm = rev t @ CHR ''.'' # rev ?r" by simp
  then have "length nm = length t + 1 + length ?r" by (metis length_append length_rev length_Cons Suc_eq_plus1 add.assoc add.commute)
  with i have "i = length (rev t)" by simp
  with nm have "drop i nm = CHR ''.'' # rev ?r" by (metis append_eq_conv_conj)
  moreover have "CHR ''.'' \<notin> set (rev ?r)" using set_takeWhileD[of "CHR ''.''" ?P "rev nm"] by auto
  ultimately show ?thesis using Some by (auto simp: path_suffix_def)
qed

text \<open>The decimal rendering of the counter tells counters apart.\<close>

lemma digit_char_inj: "d < 10 \<Longrightarrow> e < 10 \<Longrightarrow> digit_char d = digit_char e \<Longrightarrow> d = e"
proof -
  assume a: "d < 10" "e < 10" "digit_char d = digit_char e"
  have dist: "distinct ''0123456789''" by simp
  have len: "length ''0123456789'' = 10" by simp
  from a show ?thesis
    unfolding digit_char_def using dist len nth_eq_iff_index_eq[OF dist, of d e] by simp
qed

lemma str_nat_nonempty: "str_nat n \<noteq> []"
  by (subst str_nat.simps) simp

lemma str_nat_inj: "str_nat n = str_nat m \<Longrightarrow> n = m"
proof (induction n arbitrary: m rule: str_nat.induct)
  case (1 n)
  show ?case
  proof (cases "n < 10")
    case True
    show ?thesis
    proof (cases "m < 10")
      case mt: True
      from "1.prems" True mt have "digit_char n = digit_char m"
        by (simp add: str_nat.simps[of n] str_nat.simps[of m])
      then show ?thesis using True mt digit_char_inj by blast
    next
      case mf: False
      from "1.prems" True mf have "[digit_char n] = str_nat (m div 10) @ [digit_char (m mod 10)]"
        by (simp add: str_nat.simps[of n] str_nat.simps[of m])
      then show ?thesis using str_nat_nonempty[of "m div 10"] by simp
    qed
  next
    case False
    show ?thesis
    proof (cases "m < 10")
      case mt: True
      from "1.prems" False mt have "str_nat (n div 10) @ [digit_char (n mod 10)] = [digit_char m]"
        by (simp add: str_nat.simps[of n] str_nat.simps[of m])
      then show ?thesis using str_nat_nonempty[of "n div 10"] by simp
    next
      case mf: False
      from "1.prems" False mf
      have "str_nat (n div 10) @ [digit_char (n mod 10)] = str_nat (m div 10) @ [digit_char (m mod 10)]"
        by (simp add: str_nat.simps[of n] str_nat.simps[of m])
      then have a: "str_nat (n div 10) = str_nat (m div 10)" and b: "digit_char (n mod 10) = digit_char (m mod 10)"
        by simp_all
      from "1.IH"[OF False a] have d: "n div 10 = m div 10" .
      from b have e: "n mod 10 = m mod 10" using digit_char_inj[of "n mod 10" "m mod 10"] by simp
      from d e show ?thesis by (metis div_mult_mod_eq)
    qed
  qed
qed

text \<open>
  Lines 327--333: the backup name carries the stem, the detected format and the suffix, and
  from the second try on the counter. The loop runs while the path exists; it ends because
  the candidates differ from each other and the paths that exist are finitely many.
\<close>

definition backup_candidate :: "string list \<Rightarrow> string \<Rightarrow> string \<Rightarrow> string \<Rightarrow> nat \<Rightarrow> path" where
  "backup_candidate folder stem fmt sfx counter =
     \<lparr>parent = folder, name = stem @ ''_original_'' @ fmt @ ''_'' @ str_nat counter @ sfx\<rparr>"

lemma backup_candidate_inj:
  "backup_candidate folder stem fmt sfx k = backup_candidate folder stem fmt sfx k' \<Longrightarrow> k = k'"
  by (simp add: backup_candidate_def str_nat_inj)

lemma finite_path_exists: "finite {p. path_exists env fs p}"
proof -
  have "{p. path_exists env fs p} = dom (map_of fs) \<union> set (dirs_of env fs)"
    by (auto simp: path_exists_def exists_file_def is_dir_def)
  then show ?thesis by (simp add: finite_dom_map_of)
qed

function free_backup_path ::
  "env \<Rightarrow> fs \<Rightarrow> string list \<Rightarrow> string \<Rightarrow> string \<Rightarrow> string \<Rightarrow> nat \<Rightarrow> path \<Rightarrow> path" where
  "free_backup_path env fs folder stem fmt sfx counter backup_path =
     (if path_exists env fs backup_path
      then free_backup_path env fs folder stem fmt sfx (counter + 1)
             (backup_candidate folder stem fmt sfx counter)
      else backup_path)"
  by pat_completeness auto
termination
proof (relation "measure (\<lambda>(env, fs, folder, stem, fmt, sfx, counter, bp).
          card {p. path_exists env fs p \<and> (\<exists>k\<ge>counter. p = backup_candidate folder stem fmt sfx k)}
          + (if path_exists env fs bp then 1 else 0))", goal_cases)
  case 1
  show ?case by simp
next
  case (2 env fs folder stem fmt sfx counter backup_path)
  let ?c = "backup_candidate folder stem fmt sfx"
  let ?A = "\<lambda>n. {p. path_exists env fs p \<and> (\<exists>k\<ge>n. p = ?c k)}"
  have fin: "finite (?A counter)"
    by (rule finite_subset[OF _ finite_path_exists[of env fs]]) auto
  have sub: "?A (counter + 1) \<subseteq> ?A counter"
  proof
    fix p assume "p \<in> ?A (counter + 1)"
    then obtain k where k: "path_exists env fs p" "counter + 1 \<le> k" "p = ?c k" by blast
    from k(2) have "counter \<le> k" by simp
    with k show "p \<in> ?A counter" by blast
  qed
  show ?case
  proof (cases "path_exists env fs (?c counter)")
    case True
    then have mem: "?c counter \<in> ?A counter" by auto
    have "?c counter \<notin> ?A (counter + 1)"
      using backup_candidate_inj by fastforce
    with mem sub have "?A (counter + 1) \<subset> ?A counter" by blast
    then have "card (?A (counter + 1)) < card (?A counter)"
      using fin by (rule psubset_card_mono[rotated])
    with 2 True show ?thesis by simp
  next
    case False
    have "card (?A (counter + 1)) \<le> card (?A counter)"
      using fin sub by (rule card_mono)
    with 2 False show ?thesis by simp
  qed
qed

declare free_backup_path.simps [simp del]

lemma free_backup_path_free:
  "\<not> path_exists env fs (free_backup_path env fs folder stem fmt sfx counter bp)"
  by (induction env fs folder stem fmt sfx counter bp rule: free_backup_path.induct)
     (subst free_backup_path.simps, simp)


definition temp_output_of :: "path \<Rightarrow> path" where
  "temp_output_of file_path =
     \<lparr>parent = parent file_path,
      name = ''.'' @ path_stem (name file_path) @ ''_converted.flac''\<rparr>"

definition backup_folder :: "env \<Rightarrow> string list" where
  "backup_folder env = home env @ [''Desktop'', ''music_backups'']"

definition backup_path_of :: "env \<Rightarrow> fs \<Rightarrow> path \<Rightarrow> string \<Rightarrow> path" where
  "backup_path_of env fs file_path actual_format =
     free_backup_path env fs (backup_folder env) (path_stem (name file_path)) actual_format
       (path_suffix (name file_path)) 1
       \<lparr>parent = backup_folder env,
        name = path_stem (name file_path) @ ''_original_'' @ actual_format
                 @ path_suffix (name file_path)\<rparr>"

text \<open>
  \<^verbatim>\<open>if temp_output.exists(): temp_output.unlink()\<close>: a file is removed, and \<^verbatim>\<open>unlink\<close> raises on
  a directory.
\<close>

definition unlink_if_exists :: "env \<Rightarrow> path \<Rightarrow> fs \<Rightarrow> py_exn + fs" where
  "unlink_if_exists env p fs =
     (if exists_file fs p then Inr (AList.delete p fs)
      else if is_dir env fs p then Inl OSError
      else Inr fs)"

text \<open>
  The body of the \<^verbatim>\<open>try\<close> of \<^verbatim>\<open>convert_to_flac\<close>, lines 300--347. \<open>Inr (Some audio, fs')\<close> is a
  returned handle, \<open>Inr (None, fs')\<close> is \<^verbatim>\<open>return None\<close>, both with the file system at that
  point; \<open>Inl\<close> is an exception that the handler catches, with the file system at the point
  where it is raised. Line 315 prints the first 300 characters of the transcoder's error
  text, stripped (a fixed text when there is none), line 346 the message of the failed
  validation. \<^verbatim>\<open>shutil.move\<close> raises when its source is missing, its text naming the source;
  a directory is not met there, the transcoder failing on one.
\<close>

definition convert_body ::
  "env \<Rightarrow> fs \<Rightarrow> path \<Rightarrow> string \<Rightarrow> path \<Rightarrow> caught \<times> fs + audio option \<times> fs" where
  "convert_body env fs file_path actual_format temp_output =
     (case ffmpeg env file_path (map_of fs file_path) of
        FfmpegRaised \<Rightarrow> Inl ((OSError, []), fs)
      | FfmpegExit returncode stderr written \<Rightarrow>
          (let fs1 = (case written of
                        Some out \<Rightarrow> AList.update temp_output out fs
                      | None \<Rightarrow> fs)
           in if returncode \<noteq> 0
              then (let error_msg = (if stderr \<noteq> [] then [take 300 (py_strip stderr)] else [])
                    in case try_print env 315 error_msg of
                         Inl c \<Rightarrow> Inl (c, fs1)
                       | Inr u \<Rightarrow>
                           (case unlink_if_exists env temp_output fs1 of
                              Inl e \<Rightarrow> Inl ((e, [path_text temp_output]), fs1)
                            | Inr fs2 \<Rightarrow> Inr (None, fs2)))
              else if \<not> path_exists env fs1 temp_output then Inr (None, fs1)
              else
                let backup_path = backup_path_of env fs1 file_path actual_format
                in (case map_of fs1 file_path of
                      None \<Rightarrow> Inl ((OSError, [path_text file_path]), fs1)
                    | Some original \<Rightarrow>
                        (let fs2 = AList.update backup_path original
                                     (AList.delete file_path fs1)
                         in (case map_of fs2 temp_output of
                               None \<Rightarrow> Inl ((OSError, [path_text temp_output]), fs2)
                             | Some converted \<Rightarrow>
                                 (let fs3 = AList.update file_path converted
                                              (AList.delete temp_output fs2)
                                  in (case validate_flac_file fs3 file_path of
                                        Inr audio \<Rightarrow> Inr (Some audio, fs3)
                                      | Inl d \<Rightarrow>
                                          (case try_print env 346
                                                  (diagnostic_texts file_path d) of
                                             Inl c \<Rightarrow> Inl (c, fs3)
                                           | Inr u \<Rightarrow> Inr (None, fs3)))))))))"

text \<open>
  \<^verbatim>\<open>convert_to_flac\<close>, lines 279--353. \<open>Inl\<close> is an exception that escapes: of \<^verbatim>\<open>mkdir\<close> in
  line 297, which stands before the \<^verbatim>\<open>try\<close>, or raised in the handler of lines 349--353,
  which prints the text of the caught exception as markup (line 350), removes the temporary
  file and returns \<^verbatim>\<open>None\<close>.
\<close>

definition convert_to_flac :: "env \<Rightarrow> fs \<Rightarrow> path \<Rightarrow> py_exn + audio option \<times> fs" where
  "convert_to_flac env fs file_path =
     (if \<not> which_ffmpeg env then Inr (None, fs)
      else
        let actual_format = detect_actual_format fs file_path;
            temp_output = temp_output_of file_path
        in if \<not> mkdir_ok env then Inl OSError
           else
             (case convert_body env fs file_path actual_format temp_output of
                Inr r \<Rightarrow> Inr r
              | Inl ((e, texts), fs1) \<Rightarrow>
                  (case rich_print env 350 texts of
                     Inl e' \<Rightarrow> Inl e'
                   | Inr u \<Rightarrow>
                       (case unlink_if_exists env temp_output fs1 of
                          Inl e' \<Rightarrow> Inl e'
                        | Inr fs2 \<Rightarrow> Inr (None, fs2)))))"


section \<open>The two pipelines\<close>

text \<open>
  \<^verbatim>\<open>folder.rglob(pattern)\<close> for the patterns \<^verbatim>\<open>*.flac\<close> and \<^verbatim>\<open>*.FLAC\<close>: the paths below the
  folder whose name ends so, files in the order of the file system and then directories,
  which \<^verbatim>\<open>rglob\<close> yields like files. \<open>sibling_names\<close> is lines 502 and 611, the names of the
  \<^verbatim>\<open>*.flac\<close> paths of one directory.
\<close>

definition rglob :: "env \<Rightarrow> fs \<Rightarrow> string list \<Rightarrow> string \<Rightarrow> path list" where
  "rglob env fs folder ending =
     filter (\<lambda>p. prefix folder (parent p) \<and> suffix ending (name p))
       (remdups (map fst fs @ dirs_of env fs))"

definition flac_files_of :: "env \<Rightarrow> fs \<Rightarrow> string list \<Rightarrow> path list" where
  "flac_files_of env fs folder = rglob env fs folder ''.flac'' @ rglob env fs folder ''.FLAC''"

definition sibling_names :: "env \<Rightarrow> fs \<Rightarrow> string list \<Rightarrow> string list" where
  "sibling_names env fs dir =
     map name (filter (\<lambda>p. parent p = dir \<and> suffix ''.flac'' (name p))
                 (remdups (map fst fs @ dirs_of env fs)))"

text \<open>
  The counters of both modes: normal mode counts \<open>processed\<close>, \<open>skipped\<close> and \<open>failed\<close>, audit
  mode \<open>verified\<close>, \<open>updated\<close>, \<open>skipped\<close> and \<open>failed\<close>.
\<close>

record counters =
  processed :: nat
  verified :: nat
  updated :: nat
  skipped :: nat
  failed :: nat

definition no_counts :: counters where
  "no_counts = \<lparr>processed = 0, verified = 0, updated = 0, skipped = 0, failed = 0\<rparr>"

text \<open>
  Lines 479--489 and 591--600, shared by both loops: the file is validated; when it is not
  valid, the message is printed as markup (line 481 in normal mode, line 593 in audit mode)
  and the file is converted.
\<close>

definition validate_or_convert ::
  "env \<Rightarrow> nat \<Rightarrow> fs \<Rightarrow> path \<Rightarrow> py_exn + audio option \<times> fs" where
  "validate_or_convert env line fs file_path =
     (case validate_flac_file fs file_path of
        Inr result \<Rightarrow> Inr (Some result, fs)
      | Inl d \<Rightarrow>
          (case rich_print env line (diagnostic_texts file_path d) of
             Inl e \<Rightarrow> Inl e
           | Inr u \<Rightarrow> convert_to_flac env fs file_path))"

text \<open>
  The body of the loop of \<^verbatim>\<open>process_folder_normal\<close>, lines 472--525, for one file. Line 476
  prints the file name as markup.
\<close>

definition file_normal_body ::
  "env \<Rightarrow> bool \<Rightarrow> path \<Rightarrow> counters \<times> fs \<Rightarrow> py_exn + counters \<times> fs" where
  "file_normal_body env dry_run file_path state =
     (case state of (c, fs) \<Rightarrow>
        let filename = name file_path
        in (case rich_print env 476 [filename] of
              Inl e \<Rightarrow> Inl e
            | Inr u \<Rightarrow>
        (case validate_or_convert env 481 fs file_path of
           Inl e \<Rightarrow> Inl e
         | Inr (None, fs1) \<Rightarrow> Inr (c\<lparr>failed := failed c + 1\<rparr>, fs1)
         | Inr (Some result, fs1) \<Rightarrow>
             (case has_proper_metadata result of (has_metadata, missing_fields) \<Rightarrow>
                if has_metadata then Inr (c\<lparr>skipped := skipped c + 1\<rparr>, fs1)
                else
                  (case get_metadata_from_openrouter env filename
                          (sibling_names env fs1 (parent file_path)) [] of
                     Inl e \<Rightarrow> Inl e
                   | Inr metadata \<Rightarrow>
                       if truthy metadata
                       then (case display_metadata_table env metadata of
                               Inl e \<Rightarrow> Inl e
                             | Inr u \<Rightarrow>
                                 if \<not> dry_run
                                 then (case apply_metadata_to_flac env fs1 file_path metadata
                                              (Some result) of
                                         Inl e \<Rightarrow> Inl e
                                       | Inr (success, fs2) \<Rightarrow>
                                           if success
                                           then Inr (c\<lparr>processed := processed c + 1\<rparr>, fs2)
                                           else Inr (c\<lparr>failed := failed c + 1\<rparr>, fs2))
                                 else Inr (c\<lparr>processed := processed c + 1\<rparr>, fs1))
                       else Inr (c\<lparr>failed := failed c + 1\<rparr>, fs1))))))"

text \<open>
  The loop of normal mode runs inside \<^verbatim>\<open>with Progress(...)\<close>, and line 474 sets the
  description of the progress bar to markup with the first 40 characters of the file name
  in it. While the loop runs, the bar is drawn by a thread of its own, whose exceptions do
  not reach the loop. When the block is left, the bar is drawn once more by the script
  itself, with the description of the file it was left at: a \<^verbatim>\<open>MarkupError\<close> of that drawing
  escapes, also in place of an exception that left the loop.
\<close>

definition progress_exit :: "env \<Rightarrow> path \<Rightarrow> py_exn + unit" where
  "progress_exit env file_path = rich_print env 474 [take 40 (name file_path)]"

definition file_normal ::
  "env \<Rightarrow> bool \<Rightarrow> path \<Rightarrow> counters \<times> fs \<Rightarrow> py_exn + counters \<times> fs" where
  "file_normal env dry_run file_path state =
     (case file_normal_body env dry_run file_path state of
        Inl e \<Rightarrow>
          (case progress_exit env file_path of
             Inl e' \<Rightarrow> Inl e'
           | Inr u \<Rightarrow> Inl e)
      | Inr state' \<Rightarrow> Inr state')"

text \<open>
  The body of the loop of \<^verbatim>\<open>process_folder_audit\<close>, lines 581--665, for one file. Line 588
  prints the file name as markup, line 606 the table of the existing tags when there are
  any, lines 640--641 the changes, line 643 the table of the new metadata; line 646 asks.
\<close>

definition file_audit ::
  "env \<Rightarrow> bool \<Rightarrow> path \<Rightarrow> counters \<times> fs \<Rightarrow> py_exn + counters \<times> fs" where
  "file_audit env dry_run file_path state =
     (case state of (c, fs) \<Rightarrow>
        let filename = name file_path
        in (case rich_print env 588 [filename] of
              Inl e \<Rightarrow> Inl e
            | Inr u \<Rightarrow>
        (case validate_or_convert env 593 fs file_path of
           Inl e \<Rightarrow> Inl e
         | Inr (None, fs1) \<Rightarrow> Inr (c\<lparr>failed := failed c + 1\<rparr>, fs1)
         | Inr (Some result, fs1) \<Rightarrow>
             (let current_metadata = get_current_metadata result
              in case (if current_metadata \<noteq> []
                       then display_metadata_table env (snapshot_json current_metadata)
                       else Inr ()) of
                   Inl e \<Rightarrow> Inl e
                 | Inr u \<Rightarrow>
                (case get_metadata_from_openrouter env filename
                        (sibling_names env fs1 (parent file_path)) current_metadata of
                   Inl e \<Rightarrow> Inl e
                 | Inr new_metadata \<Rightarrow>
                     if truthy new_metadata
                     then (case detect_changes new_metadata current_metadata of
                             Inl e \<Rightarrow> Inl e
                           | Inr (changes_detected, changes_summary) \<Rightarrow>
                               if changes_detected
                               then (case print_changes env changes_summary of
                                       Inl e \<Rightarrow> Inl e
                                     | Inr u \<Rightarrow>
                                    (case display_metadata_table env new_metadata of
                                       Inl e \<Rightarrow> Inl e
                                     | Inr u \<Rightarrow>
                                         if \<not> dry_run
                                         then (case confirm env file_path of
                                                 None \<Rightarrow> Inl EOFError
                                               | Some answer \<Rightarrow>
                                                   if answer
                                                   then (case apply_metadata_to_flac env fs1 file_path
                                                                new_metadata (Some result) of
                                                           Inl e \<Rightarrow> Inl e
                                                         | Inr (success, fs2) \<Rightarrow>
                                                             if success
                                                             then Inr (c\<lparr>updated := updated c + 1\<rparr>, fs2)
                                                             else Inr (c\<lparr>failed := failed c + 1\<rparr>, fs2))
                                                   else Inr (c\<lparr>skipped := skipped c + 1\<rparr>, fs1))
                                         else Inr (c\<lparr>updated := updated c + 1\<rparr>, fs1)))
                               else Inr (c\<lparr>verified := verified c + 1\<rparr>, fs1))
                     else Inr (c\<lparr>failed := failed c + 1\<rparr>, fs1))))))"

text \<open>The \<^verbatim>\<open>for\<close> loop over the files: an exception of a body ends the run.\<close>

fun run_files ::
  "(path \<Rightarrow> counters \<times> fs \<Rightarrow> py_exn + counters \<times> fs) \<Rightarrow> path list \<Rightarrow> counters \<times> fs
     \<Rightarrow> py_exn + counters \<times> fs" where
  "run_files body [] state = Inr state"
| "run_files body (file_path # rest) state =
     (case body file_path state of
        Inl e \<Rightarrow> Inl e
      | Inr state' \<Rightarrow> run_files body rest state')"

text \<open>
  \<^verbatim>\<open>process_folder_normal\<close> (lines 425--536) and \<^verbatim>\<open>process_folder_audit\<close> (lines 539--677).
  Both return early, without a summary, when the folder is missing or holds no file;
  otherwise the summary is the counters and the total, \<^verbatim>\<open>len(flac_files)\<close>. Each of the
  three panels prints the folder path as markup; \<open>panels\<close> are their lines. \<open>progress\<close> says
  that the loop runs inside \<^verbatim>\<open>with Progress(...)\<close>, which is left after the last file.
\<close>

definition process_folder ::
  "(path \<Rightarrow> counters \<times> fs \<Rightarrow> py_exn + counters \<times> fs) \<Rightarrow> nat \<times> nat \<times> nat \<Rightarrow> bool \<Rightarrow> env \<Rightarrow> fs
     \<Rightarrow> string list \<Rightarrow> py_exn + (counters \<times> nat) option \<times> fs" where
  "process_folder body panels progress env fs folder =
     (case panels of (missing_panel, empty_panel, found_panel) \<Rightarrow>
        let folder_path = join ''/'' folder
        in if \<not> folder_exists env folder
           then (case rich_print env missing_panel [folder_path] of
                   Inl e \<Rightarrow> Inl e
                 | Inr u \<Rightarrow> Inr (None, fs))
           else
             let flac_files = flac_files_of env fs folder
             in if flac_files = []
                then (case rich_print env empty_panel [folder_path] of
                        Inl e \<Rightarrow> Inl e
                      | Inr u \<Rightarrow> Inr (None, fs))
                else (case rich_print env found_panel [folder_path] of
                        Inl e \<Rightarrow> Inl e
                      | Inr u \<Rightarrow>
                          (case run_files body flac_files (no_counts, fs) of
                             Inl e \<Rightarrow> Inl e
                           | Inr (c, fs') \<Rightarrow>
                               (case (if progress then progress_exit env (last flac_files)
                                      else Inr ()) of
                                  Inl e \<Rightarrow> Inl e
                                | Inr u \<Rightarrow> Inr (Some (c, length flac_files), fs')))))"

definition process_folder_normal ::
  "env \<Rightarrow> fs \<Rightarrow> string list \<Rightarrow> bool \<Rightarrow> py_exn + (counters \<times> nat) option \<times> fs" where
  "process_folder_normal env fs folder_path dry_run =
     process_folder (file_normal env dry_run) (430, 442, 450) True env fs folder_path"

definition process_folder_audit ::
  "env \<Rightarrow> fs \<Rightarrow> string list \<Rightarrow> bool \<Rightarrow> py_exn + (counters \<times> nat) option \<times> fs" where
  "process_folder_audit env fs folder_path dry_run =
     process_folder (file_audit env dry_run) (545, 556, 564) False env fs folder_path"


section \<open>Notions used in the statements\<close>

text \<open>
  The new value of line 629 for a field that holds a string or is missing: the string, or
  the empty string.
\<close>

definition new_text :: "(string \<times> json) list \<Rightarrow> string \<Rightarrow> string" where
  "new_text kvs new_key = (case dict_get kvs new_key of JStr s \<Rightarrow> s | _ \<Rightarrow> [])"

definition differs :: "(string \<times> json) list \<Rightarrow> snapshot \<Rightarrow> string \<times> string \<Rightarrow> bool" where
  "differs kvs cur pair \<longleftrightarrow>
     new_text kvs (fst pair) \<noteq> []
     \<and> normalized (new_text kvs (fst pair)) \<noteq> normalized (old_value cur (snd pair))"

definition text_or_missing :: "(string \<times> json) list \<Rightarrow> string \<Rightarrow> bool" where
  "text_or_missing kvs new_key \<longleftrightarrow>
     (case dict_get kvs new_key of JNull \<Rightarrow> True | JStr s \<Rightarrow> True | _ \<Rightarrow> False)"

text \<open>The comments a record with every field set leaves in the file.\<close>

definition full_comments ::
  "string \<Rightarrow> string \<Rightarrow> string \<Rightarrow> string list \<Rightarrow> string \<Rightarrow> string list \<Rightarrow> string \<Rightarrow> string \<Rightarrow> string
     \<Rightarrow> comment list" where
  "full_comments composer work movement performers orchestra soloists date disc track =
     [(''COMPOSER'', composer), (''ALBUM'', work), (''WORK'', work), (''TITLE'', movement),
      (''ARTIST'', join '', '' performers), (''ALBUMARTIST'', join '', '' performers),
      (''ORCHESTRA'', orchestra), (''ENSEMBLE'', orchestra)]
     @ map (Pair ''PERFORMER'') soloists
     @ [(''DATE'', date), (''DISCNUMBER'', disc), (''TRACKNUMBER'', track)]"

definition as_json :: "comment \<Rightarrow> string \<times> json" where
  "as_json kv = (fst kv, JStr (snd kv))"

text \<open>How line 250 reads a tag with the given values back.\<close>

definition read_back :: "string list \<Rightarrow> tagval" where
  "read_back vs = (case vs of [v] \<Rightarrow> Single v | _ \<Rightarrow> Multi vs)"

definition counted :: "counters \<Rightarrow> nat" where
  "counted c = processed c + verified c + updated c + skipped c + failed c"

text \<open>
  Whitespace and small letters by code point, as the Unicode tables give them below
  \<^verbatim>\<open>U+0100\<close>: the whitespace is \<^verbatim>\<open>U+0009\<close>--\<^verbatim>\<open>U+000D\<close>, \<^verbatim>\<open>U+001C\<close>--\<^verbatim>\<open>U+0020\<close>, \<^verbatim>\<open>U+0085\<close> and
  \<^verbatim>\<open>U+00A0\<close>; the capital letters \<^verbatim>\<open>U+0041\<close>--\<^verbatim>\<open>U+005A\<close>, \<^verbatim>\<open>U+00C0\<close>--\<^verbatim>\<open>U+00D6\<close> and
  \<^verbatim>\<open>U+00D8\<close>--\<^verbatim>\<open>U+00DE\<close> have their small letter 32 code points further. A text is blank when
  it holds nothing but whitespace. A text \<open>s\<close> is trimmed to \<open>t\<close> when \<open>t\<close> is what is left of
  \<open>s\<close> after taking whitespace, and nothing else, from both ends until none is left there.
  Two texts are the same text when their small-letter forms are trimmed to the same text.
\<close>

definition white_space :: "char \<Rightarrow> bool" where
  "white_space c \<longleftrightarrow> (of_char c :: nat) \<in> {9..13} \<union> {28..32} \<union> {133, 160}"

definition small_letter :: "char \<Rightarrow> char" where
  "small_letter c =
     (if (of_char c :: nat) \<in> {65..90} \<union> {192..214} \<union> {216..222}
      then char_of (of_char c + 32 :: nat) else c)"

definition blank :: "string \<Rightarrow> bool" where
  "blank s \<longleftrightarrow> (\<forall>c\<in>set s. white_space c)"

definition trimmed_to :: "string \<Rightarrow> string \<Rightarrow> bool" where
  "trimmed_to s t \<longleftrightarrow>
     (\<exists>a b. s = a @ t @ b \<and> blank a \<and> blank b
            \<and> (t = [] \<or> \<not> white_space (hd t) \<and> \<not> white_space (last t)))"

definition same_text :: "string \<Rightarrow> string \<Rightarrow> bool" where
  "same_text x y \<longleftrightarrow>
     (\<exists>t. trimmed_to (map small_letter x) t \<and> trimmed_to (map small_letter y) t)"


section \<open>Example libraries and environments\<close>

definition track1 :: path where
  "track1 = \<lparr>parent = [''music''], name = ''track1.flac''\<rparr>"

definition blank_first_title :: audio where
  "blank_first_title =
     \<lparr>opened_from = \<lparr>parent = [''music''], name = ''track1.flac''\<rparr>,
      tags = [(''COMPOSER'', ''Bach, Johann Sebastian''), (''ALBUM'', ''Mass in B minor, BWV 232''),
              (''TITLE'', ''''), (''TITLE'', ''Kyrie''), (''ARTIST'', ''Gardiner'')]\<rparr>"

text \<open>
  A handle whose ALBUM is a TAB and whose TITLE is a no-break space, a blank and a NEL; the
  key of its last tag is in small letters.
\<close>

definition nbsp_title :: audio where
  "nbsp_title =
     \<lparr>opened_from = \<lparr>parent = [''music''], name = ''track1.flac''\<rparr>,
      tags = [(''COMPOSER'', ''Faur'' @ [CHR 0xE9] @ '', Gabriel''),
              (''ALBUM'', [CHR 0x09]), (''WORK'', ''Requiem, Op. 48''),
              (''TITLE'', [CHR 0xA0, CHR 0x20, CHR 0x85]),
              (''albumartist'', ''Herreweghe'')]\<rparr>"

text \<open>
  A concrete run: an environment without transcoder and service, whose texts hold no markup
  tag, so that every print goes through; one valid file, one record.
\<close>

definition offline_env :: env where
  "offline_env =
     \<lparr>home = [''home'', ''user''], which_ffmpeg = False, mkdir_ok = True,
      ffmpeg = (\<lambda>p f. FfmpegRaised), chat = (\<lambda>n c e. ApiRaised ''Connection error.''),
      json_loads = (\<lambda>s. None), repr_container = (\<lambda>v. []),
      save_fails = (\<lambda>p. False), confirm = (\<lambda>p. Some True), folder_exists = (\<lambda>d. True),
      directories = [], markup_error = (\<lambda>line texts. None)\<rparr>"

definition tagged_flac :: disk_file where
  "tagged_flac = \<lparr>raw = ''fLaC____'', vorbis = Some [(''title'', ''Track 02'')]\<rparr>"

definition romance_record :: "(string \<times> json) list" where
  "romance_record =
     [(''composer'', JStr ''Chopin, Frederic''),
      (''work'', JStr ''Piano Concerto No. 1, Op. 11''),
      (''movement'', JStr ''II. Romance''),
      (''performers'', JArr [JStr ''Claudio Abbado'', JStr ''Martha Argerich'']),
      (''orchestra'', JStr ''London Symphony Orchestra''),
      (''soloists'', JArr [JStr ''Martha Argerich'']),
      (''date'', JStr ''1968''),
      (''disc'', JStr ''1''),
      (''track'', JInt 2)]"

text \<open>
  A worked conversion: \<^verbatim>\<open>track1.flac\<close> holds MP3 data, the transcoder works, and a backup of
  an earlier run already has the first backup name.
\<close>

definition fresh_flac :: disk_file where
  "fresh_flac = \<lparr>raw = ''fLaC____'', vorbis = Some []\<rparr>"

definition mp3_file :: disk_file where
  "mp3_file = \<lparr>raw = ''ID3_____audio'', vorbis = None\<rparr>"

definition transcoder_env :: env where
  "transcoder_env =
     offline_env\<lparr>which_ffmpeg := True, ffmpeg := (\<lambda>p f. FfmpegExit 0 [] (Some fresh_flac))\<rparr>"

definition backups :: "string list" where
  "backups = [''home'', ''user'', ''Desktop'', ''music_backups'']"

definition mp3_library :: fs where
  "mp3_library =
     [(track1, mp3_file),
      (\<lparr>parent = backups, name = ''track1_original_mp3.flac''\<rparr>, tagged_flac)]"

definition converted_library :: fs where
  "converted_library =
     [(\<lparr>parent = backups, name = ''track1_original_mp3.flac''\<rparr>, tagged_flac),
      (\<lparr>parent = backups, name = ''track1_original_mp3_1.flac''\<rparr>, mp3_file),
      (track1, fresh_flac)]"

definition untagged_library :: fs where
  "untagged_library = [(track1, fresh_flac)]"

text \<open>
  The service replies the JSON list \<^verbatim>\<open>[1]\<close>, which \<^verbatim>\<open>json.loads\<close> parses.
\<close>

definition list_reply_env :: env where
  "list_reply_env =
     offline_env\<lparr>chat := (\<lambda>n c e. ApiContent ''[1]''),
                 json_loads := (\<lambda>s. if s = ''[1]'' then Some (JArr [JInt 1]) else None)\<rparr>"

definition track2 :: path where
  "track2 = \<lparr>parent = [''music''], name = ''track2.flac''\<rparr>"

definition two_untagged :: fs where
  "two_untagged = [(track1, fresh_flac), (track2, fresh_flac)]"

definition dq :: char where
  "dq = CHR 0x22"

definition composer_reply :: string where
  "composer_reply =
     ''{'' @ [dq] @ ''composer'' @ [dq] @ '': '' @ [dq] @ ''Chopin, Frederic'' @ [dq] @ ''}''"

definition service_env :: env where
  "service_env =
     transcoder_env\<lparr>chat := (\<lambda>n c e. ApiContent composer_reply),
                    json_loads := (\<lambda>s. if s = composer_reply
                                        then Some (JObj [(''composer'', JStr ''Chopin, Frederic'')])
                                        else None)\<rparr>"

text \<open>
  The call of the service raises, and the text of its exception holds a closing markup tag.
  The parser's answer is taken from \<^verbatim>\<open>rich\<close>: printed by line 196, this text raises
  \<^verbatim>\<open>MarkupError\<close> with the message below; the texts of the other prints of the run, file
  names and a folder name without tags, go through.
\<close>

definition gateway_text :: string where
  "gateway_text = ''Error code: 502 - [/html]''"

definition gateway_error_env :: env where
  "gateway_error_env =
     offline_env\<lparr>chat := (\<lambda>n c e. ApiRaised gateway_text),
                 markup_error := (\<lambda>line texts.
                    if line = 196 \<and> texts = [gateway_text]
                    then Some (''closing tag '' @ [CHR 0x27] @ ''[/html]'' @ [CHR 0x27]
                               @ '' at position 64 doesn'' @ [CHR 0x27]
                               @ ''t match any open tag'')
                    else None)\<rparr>"

text \<open>A library whose only \<^verbatim>\<open>*.flac\<close> path is a directory, holding a picture.\<close>

definition album_directory :: fs where
  "album_directory =
     [(\<lparr>parent = [''music'', ''live.flac''], name = ''cover.jpg''\<rparr>,
       \<lparr>raw = ''JFIF'', vorbis = None\<rparr>)]"

definition empty_output :: disk_file where
  "empty_output = \<lparr>raw = [], vorbis = None\<rparr>"

definition broken_transcoder_env :: env where
  "broken_transcoder_env =
     offline_env\<lparr>which_ffmpeg := True, ffmpeg := (\<lambda>p f. FfmpegExit 0 [] (Some empty_output))\<rparr>"

definition single_mp3 :: fs where
  "single_mp3 = [(track1, mp3_file)]"


section \<open>Properties of the string primitives\<close>

text \<open>
  The tables of \<open>py_isspace\<close> and \<open>lower_char\<close> are the whitespace and the small letters by
  code point, and \<open>py_strip\<close> trims: its result is the one text the input is trimmed to.
\<close>

lemma char_eq_code: "c = d \<longleftrightarrow> (of_char c :: nat) = of_char d"
  by simp

lemma char_of_code: "c = char_of (n::nat) \<longleftrightarrow> (of_char c :: nat) = n mod 256"
  using char_eq_code [of c "char_of n"] by simp

lemma py_isspace_codes: "py_isspace c \<longleftrightarrow> white_space c"
proof -
  have "py_isspace c \<longleftrightarrow> (of_char c :: nat) \<in> {9, 10, 11, 12, 13, 28, 29, 30, 31, 32, 133, 160}"
    unfolding py_isspace_def by (simp add: char_eq_code [of c])
  also have "\<dots> \<longleftrightarrow> (of_char c :: nat) \<in> {9..13} \<union> {28..32} \<union> {133, 160}"
    by auto
  finally show ?thesis by (simp add: white_space_def)
qed

lemma lower_char_codes: "lower_char c = small_letter c"
proof -
  have u: "(of_char c :: nat) \<in> {65..90} \<union> {192..214} \<union> {216..222} \<longleftrightarrow>
        c \<in> set upper_letters"
    unfolding upper_letters_def by (simp add: char_eq_code [of c]) arith
  show ?thesis
  proof (cases "c \<in> set upper_letters")
    case False
    then have "map_of (zip upper_letters lower_letters) c = None"
      by (simp add: map_of_eq_None_iff upper_letters_def lower_letters_def)
    with False u show ?thesis by (auto simp add: lower_char_def small_letter_def)
  next
    case True
    have "\<forall>x \<in> set upper_letters. lower_char x = char_of (of_char x + 32 :: nat)"
      unfolding upper_letters_def
      by (simp add: lower_char_def upper_letters_def lower_letters_def char_of_code)
    with True u show ?thesis by (auto simp: small_letter_def)
  qed
qed

lemma strip_where_trimmed:
  "strip_where P s = t \<longleftrightarrow>
     (\<exists>a b. s = a @ t @ b \<and> (\<forall>c\<in>set a. P c) \<and> (\<forall>c\<in>set b. P c)
            \<and> (t = [] \<or> \<not> P (hd t) \<and> \<not> P (last t)))"
proof
  assume st: "strip_where P s = t"
  let ?u = "dropWhile P s"
  let ?a = "takeWhile P s"
  let ?b = "rev (takeWhile P (rev ?u))"
  have t: "t = rev (dropWhile P (rev ?u))" using st by (simp add: strip_where_def)
  have u: "?u = t @ ?b"
    unfolding t by (metis rev_append rev_rev_ident takeWhile_dropWhile_id)
  have s: "s = ?a @ t @ ?b" using u by (metis takeWhile_dropWhile_id)
  have pa: "\<forall>c\<in>set ?a. P c" by (auto dest: set_takeWhileD)
  have pb: "\<forall>c\<in>set ?b. P c" by (auto dest: set_takeWhileD)
  have ends: "t = [] \<or> \<not> P (hd t) \<and> \<not> P (last t)"
  proof (cases "t = []")
    case True then show ?thesis by simp
  next
    case False
    then have ne: "dropWhile P (rev ?u) \<noteq> []" using t by simp
    from ne have "\<not> P (hd (dropWhile P (rev ?u)))" by (rule hd_dropWhile)
    then have l: "\<not> P (last t)" using t ne by (simp add: last_rev)
    from False u have une: "?u \<noteq> []" by (metis append_is_Nil_conv)
    then have "\<not> P (hd ?u)" by (rule hd_dropWhile)
    moreover have "hd ?u = hd t" using u False by (metis hd_append2)
    ultimately show ?thesis using l by simp
  qed
  from s pa pb ends show "\<exists>a b. s = a @ t @ b \<and> (\<forall>c\<in>set a. P c) \<and> (\<forall>c\<in>set b. P c)
            \<and> (t = [] \<or> \<not> P (hd t) \<and> \<not> P (last t))" by blast
next
  assume "\<exists>a b. s = a @ t @ b \<and> (\<forall>c\<in>set a. P c) \<and> (\<forall>c\<in>set b. P c)
            \<and> (t = [] \<or> \<not> P (hd t) \<and> \<not> P (last t))"
  then obtain a b where s: "s = a @ t @ b" and pa: "\<forall>c\<in>set a. P c" and pb: "\<forall>c\<in>set b. P c"
    and ends: "t = [] \<or> \<not> P (hd t) \<and> \<not> P (last t)" by blast
  have d1: "dropWhile P s = dropWhile P (t @ b)" using s pa by (simp add: dropWhile_append2)
  show "strip_where P s = t"
  proof (cases "t = []")
    case True
    have b: "dropWhile P b = []" using pb by simp
    have e: "dropWhile P s = []" by (metis d1 True append_Nil b)
    show ?thesis unfolding strip_where_def e True by simp
  next
    case False
    with ends have h: "\<not> P (hd t)" and l: "\<not> P (last t)" by simp_all
    from False h have "dropWhile P (t @ b) = t @ b" by (cases t) simp_all
    with d1 have d2: "dropWhile P s = t @ b" by simp
    have pr: "\<And>x. x \<in> set (rev b) \<Longrightarrow> P x" using pb by simp
    have "dropWhile P (rev (t @ b)) = dropWhile P (rev b @ rev t)" by simp
    also have "\<dots> = dropWhile P (rev t)" using pr by (rule dropWhile_append2)
    finally have "dropWhile P (rev (t @ b)) = dropWhile P (rev t)" .
    also have "\<dots> = rev t" using False l by (cases "rev t") (simp_all add: last_rev hd_rev)
    finally show ?thesis by (simp add: strip_where_def d2)
  qed
qed

lemma py_strip_trimmed: "trimmed_to s t \<longleftrightarrow> py_strip s = t"
proof -
  have p: "py_isspace = white_space" by (rule ext) (simp add: py_isspace_codes)
  have "py_strip s = t \<longleftrightarrow> strip_where white_space s = t" by (simp add: py_strip_def p)
  also have "\<dots> \<longleftrightarrow> trimmed_to s t" unfolding trimmed_to_def blank_def by (rule strip_where_trimmed)
  finally show ?thesis by simp
qed

lemma py_strip_blank: "py_strip v = [] \<longleftrightarrow> blank v"
proof -
  have "py_strip v = [] \<longleftrightarrow> trimmed_to v []" by (simp add: py_strip_trimmed)
  also have "\<dots> \<longleftrightarrow> (\<exists>a b. v = a @ b \<and> blank a \<and> blank b)" by (simp add: trimmed_to_def)
  also have "\<dots> \<longleftrightarrow> blank v"
  proof
    assume "\<exists>a b. v = a @ b \<and> blank a \<and> blank b"
    then show "blank v" by (auto simp: blank_def)
  next
    assume "blank v"
    then have "v = v @ [] \<and> blank v \<and> blank []" by (simp add: blank_def)
    then show "\<exists>a b. v = a @ b \<and> blank a \<and> blank b" by blast
  qed
  finally show ?thesis .
qed

lemma same_text_normalized: "same_text x y \<longleftrightarrow> normalized x = normalized y"
proof -
  have l: "map small_letter = py_lower"
    by (rule ext) (simp add: py_lower_def lower_char_codes [abs_def])
  show ?thesis
    unfolding same_text_def l py_strip_trimmed normalized_def by auto
qed


section \<open>Properties of format detection\<close>

lemma bytes4_cases:
  obtains "h = []" | a where "h = [a]" | a b where "h = [a, b]" | a b c where "h = [a, b, c]"
    | a b c d r where "h = a # b # c # d # r"
proof (cases h)
  case Nil then show ?thesis using that by blast
next
  case (Cons a h1)
  show ?thesis
  proof (cases h1)
    case Nil with Cons show ?thesis using that by blast
  next
    case (Cons b h2)
    note c2 = this
    show ?thesis
    proof (cases h2)
      case Nil with c2 \<open>h = a # h1\<close> show ?thesis using that by blast
    next
      case (Cons c h3)
      note c3 = this
      show ?thesis
      proof (cases h3)
        case Nil with c2 c3 \<open>h = a # h1\<close> show ?thesis using that by blast
      next
        case (Cons d r) with c2 c3 \<open>h = a # h1\<close> show ?thesis using that by blast
      qed
    qed
  qed
qed

lemma detect_header_flac: "take 4 h = ''fLaC'' \<Longrightarrow> detect_header h = ''flac''"
  by (simp add: detect_header_def)

lemma detect_header_wav:
  "take 4 h = ''RIFF'' \<Longrightarrow> drop 8 (take 12 h) = ''WAVE'' \<Longrightarrow> detect_header h = ''wav''"
  by (simp add: detect_header_def)

lemma detect_header_mp3:
  "take 3 h = ''ID3'' \<or> take 2 h = [CHR 0xFF, CHR 0xFB] \<Longrightarrow> detect_header h = ''mp3''"
  by (cases h rule: bytes4_cases) (auto simp: detect_header_def)

lemma detect_header_ogg: "take 4 h = ''OggS'' \<Longrightarrow> detect_header h = ''ogg''"
  by (cases h rule: bytes4_cases) (auto simp: detect_header_def)

lemma detect_header_box:
  "take 4 h \<in> {[CHR 0x00, CHR 0x00, CHR 0x00, CHR 0x18],
               [CHR 0x00, CHR 0x00, CHR 0x00, CHR 0x1C],
               [CHR 0x00, CHR 0x00, CHR 0x00, CHR 0x20]} \<Longrightarrow> detect_header h = ''m4a''"
  by (cases h rule: bytes4_cases) (auto simp: detect_header_def)

lemma detect_header_short: "length h < 2 \<Longrightarrow> detect_header h = ''unknown''"
  by (cases h rule: bytes4_cases) (auto simp: detect_header_def)

text \<open>
  C8 (amended). The sniffer never raises: a file that cannot be opened is \<^verbatim>\<open>'unknown'\<close>, and a
  header is matched against the signatures in the order of the table, the first match giving
  the kind: \<^verbatim>\<open>fLaC\<close> is flac; \<^verbatim>\<open>RIFF\<close> with \<^verbatim>\<open>WAVE\<close> at offset 8 is wav; \<^verbatim>\<open>ID3\<close> or the bytes
  FF FB are mp3; \<^verbatim>\<open>OggS\<close> is ogg; one of the box sizes 00 00 00 18, 00 00 00 1C, 00 00 00 20,
  or \<^verbatim>\<open>ftyp\<close> at offset 4 when no earlier signature matches, is m4a; a header that matches
  no signature is unknown. A header too short to hold a signature does not match it, so a
  file of fewer than two bytes is unknown; a short header that holds a whole signature is
  classified by it.
\<close>

theorem detect_actual_format_first_match:
  "(map_of fs p = None \<longrightarrow> detect_actual_format fs p = ''unknown'')
   \<and> (\<forall>f h. map_of fs p = Some f \<and> h = take 12 (raw f) \<longrightarrow>
        (take 4 h = ''fLaC'' \<longrightarrow> detect_actual_format fs p = ''flac'')
      \<and> (take 4 h = ''RIFF'' \<and> drop 8 h = ''WAVE'' \<longrightarrow> detect_actual_format fs p = ''wav'')
      \<and> (take 3 h = ''ID3'' \<or> take 2 h = [CHR 0xFF, CHR 0xFB] \<longrightarrow>
            detect_actual_format fs p = ''mp3'')
      \<and> (take 4 h = ''OggS'' \<longrightarrow> detect_actual_format fs p = ''ogg'')
      \<and> (take 4 h \<in> {[CHR 0x00, CHR 0x00, CHR 0x00, CHR 0x18],
                      [CHR 0x00, CHR 0x00, CHR 0x00, CHR 0x1C],
                      [CHR 0x00, CHR 0x00, CHR 0x00, CHR 0x20]} \<longrightarrow>
            detect_actual_format fs p = ''m4a'')
      \<and> (drop 4 (take 8 h) = ''ftyp'' \<and> take 4 h \<noteq> ''fLaC''
            \<and> \<not> (take 4 h = ''RIFF'' \<and> drop 8 h = ''WAVE'')
            \<and> take 3 h \<noteq> ''ID3'' \<and> take 2 h \<noteq> [CHR 0xFF, CHR 0xFB]
            \<and> take 4 h \<noteq> ''OggS'' \<longrightarrow>
            detect_actual_format fs p = ''m4a'')
      \<and> (take 4 h \<noteq> ''fLaC'' \<and> \<not> (take 4 h = ''RIFF'' \<and> drop 8 h = ''WAVE'')
            \<and> take 3 h \<noteq> ''ID3'' \<and> take 2 h \<noteq> [CHR 0xFF, CHR 0xFB]
            \<and> take 4 h \<noteq> ''OggS'' \<and> drop 4 (take 8 h) \<noteq> ''ftyp''
            \<and> take 4 h \<notin> {[CHR 0x00, CHR 0x00, CHR 0x00, CHR 0x18],
                           [CHR 0x00, CHR 0x00, CHR 0x00, CHR 0x1C],
                           [CHR 0x00, CHR 0x00, CHR 0x00, CHR 0x20]} \<longrightarrow>
            detect_actual_format fs p = ''unknown'')
      \<and> (length (raw f) < 2 \<longrightarrow> detect_actual_format fs p = ''unknown''))"
proof (intro conjI allI impI)
  assume "map_of fs p = None"
  then show "detect_actual_format fs p = ''unknown''"
    by (simp add: detect_actual_format_def)
next
  fix f h assume "map_of fs p = Some f \<and> h = take 12 (raw f)" "take 4 h = ''fLaC''"
  then show "detect_actual_format fs p = ''flac''"
    by (simp add: detect_actual_format_def detect_header_flac)
next
  fix f h assume "map_of fs p = Some f \<and> h = take 12 (raw f)"
    "take 4 h = ''RIFF'' \<and> drop 8 h = ''WAVE''"
  then show "detect_actual_format fs p = ''wav''"
    by (simp add: detect_actual_format_def detect_header_wav)
next
  fix f h assume "map_of fs p = Some f \<and> h = take 12 (raw f)"
    "take 3 h = ''ID3'' \<or> take 2 h = [CHR 0xFF, CHR 0xFB]"
  then show "detect_actual_format fs p = ''mp3''"
    using detect_header_mp3[of h] by (simp add: detect_actual_format_def)
next
  fix f h assume "map_of fs p = Some f \<and> h = take 12 (raw f)" "take 4 h = ''OggS''"
  then show "detect_actual_format fs p = ''ogg''"
    using detect_header_ogg[of h] by (simp add: detect_actual_format_def)
next
  fix f h assume "map_of fs p = Some f \<and> h = take 12 (raw f)"
    "take 4 h \<in> {[CHR 0x00, CHR 0x00, CHR 0x00, CHR 0x18],
                 [CHR 0x00, CHR 0x00, CHR 0x00, CHR 0x1C],
                 [CHR 0x00, CHR 0x00, CHR 0x00, CHR 0x20]}"
  then show "detect_actual_format fs p = ''m4a''"
    using detect_header_box[of h] by (simp add: detect_actual_format_def)
next
  fix f h assume a: "map_of fs p = Some f \<and> h = take 12 (raw f)"
    and b: "drop 4 (take 8 h) = ''ftyp'' \<and> take 4 h \<noteq> ''fLaC''
            \<and> \<not> (take 4 h = ''RIFF'' \<and> drop 8 h = ''WAVE'')
            \<and> take 3 h \<noteq> ''ID3'' \<and> take 2 h \<noteq> [CHR 0xFF, CHR 0xFB]
            \<and> take 4 h \<noteq> ''OggS''"
  from a have t: "take 12 h = h" by simp
  from a have "detect_actual_format fs p = detect_header h"
    by (simp add: detect_actual_format_def)
  also from b have "detect_header h = ''m4a''"
    unfolding detect_header_def t by simp
  finally show "detect_actual_format fs p = ''m4a''" .
next
  fix f h assume a: "map_of fs p = Some f \<and> h = take 12 (raw f)"
    and b: "take 4 h \<noteq> ''fLaC'' \<and> \<not> (take 4 h = ''RIFF'' \<and> drop 8 h = ''WAVE'')
            \<and> take 3 h \<noteq> ''ID3'' \<and> take 2 h \<noteq> [CHR 0xFF, CHR 0xFB]
            \<and> take 4 h \<noteq> ''OggS'' \<and> drop 4 (take 8 h) \<noteq> ''ftyp''
            \<and> take 4 h \<notin> {[CHR 0x00, CHR 0x00, CHR 0x00, CHR 0x18],
                           [CHR 0x00, CHR 0x00, CHR 0x00, CHR 0x1C],
                           [CHR 0x00, CHR 0x00, CHR 0x00, CHR 0x20]}"
  from a have t: "take 12 h = h" by simp
  from a have "detect_actual_format fs p = detect_header h"
    by (simp add: detect_actual_format_def)
  also from b have "detect_header h = ''unknown''"
    unfolding detect_header_def t by simp
  finally show "detect_actual_format fs p = ''unknown''" .
next
  fix f h assume "map_of fs p = Some f \<and> h = take 12 (raw f)" "length (raw f) < 2"
  then show "detect_actual_format fs p = ''unknown''"
    using detect_header_short[of h] by (simp add: detect_actual_format_def)
qed

theorem detect_actual_format_first_match_witness:
  "detect_actual_format [(track1, \<lparr>raw = ''RIFF$___WAVEfmt '', vorbis = None\<rparr>)] track1 = ''wav''
   \<and> detect_actual_format [(track1, \<lparr>raw = ''x'', vorbis = None\<rparr>)] track1 = ''unknown''"
proof -
  let ?f = "\<lparr>raw = ''RIFF$___WAVEfmt '', vorbis = None\<rparr>"
  let ?g = "\<lparr>raw = ''x'', vorbis = None\<rparr>"
  have w: "map_of [(track1, ?f)] track1 = Some ?f \<and> take 12 (raw ?f) = take 12 (raw ?f)"
    by simp
  have s: "take 4 (take 12 (raw ?f)) = ''RIFF'' \<and> drop 8 (take 12 (raw ?f)) = ''WAVE''"
    by simp
  have x: "map_of [(track1, ?g)] track1 = Some ?g \<and> take 12 (raw ?g) = take 12 (raw ?g)"
    by simp
  have l: "length (raw ?g) < 2" by simp
  from detect_actual_format_first_match[of "[(track1, ?f)]" track1] w s
  have 1: "detect_actual_format [(track1, ?f)] track1 = ''wav''" by blast
  from detect_actual_format_first_match[of "[(track1, ?g)]" track1] x l
  have 2: "detect_actual_format [(track1, ?g)] track1 = ''unknown''" by blast
  from 1 2 show ?thesis by simp
qed

text \<open>
  The claim as written treats every truncated input as unknown. A file of the three bytes
  \<^verbatim>\<open>ID3\<close> is truncated, and is classified as mp3.
\<close>

theorem detect_actual_format_truncated_counterexample:
  "length (raw \<lparr>raw = ''ID3'', vorbis = None\<rparr>) < 12
   \<and> detect_actual_format [(track1, \<lparr>raw = ''ID3'', vorbis = None\<rparr>)] track1 = ''mp3''
   \<and> detect_actual_format [(track1, \<lparr>raw = ''ID3'', vorbis = None\<rparr>)] track1 \<noteq> ''unknown''"
  by (simp add: detect_actual_format_def detect_header_def)


section \<open>Properties of the required-metadata check\<close>

lemma tag_has_value_iff:
  "tag_has_value a tag \<longleftrightarrow> (\<exists>v vs. vc_get (tags a) tag = v # vs \<and> py_strip v \<noteq> [])"
  by (simp add: tag_has_value_def split: list.splits)

lemma has_proper_metadata_missing:
  "snd (has_proper_metadata a) =
     map fst (filter (\<lambda>fo. \<not> list_ex (tag_has_value a) (snd fo)) required_fields)"
  by (simp add: has_proper_metadata_def Let_def)

text \<open>
  C7 (amended). For every handle, a semantic field (composer, work, title, artist) is
  reported missing exactly when none of its alias tags (COMPOSER; ALBUM or WORK; TITLE;
  ARTIST or ALBUMARTIST) is set with a first value that is not blank, that is, a first value
  with a character that is no whitespace; the check answers the missing semantic field
  names, in the order composer, work, title, artist, and says \<open>True\<close> exactly when that list
  is empty.
\<close>

theorem has_proper_metadata_first_values:
  "(''composer'' \<in> set (snd (has_proper_metadata a)) \<longleftrightarrow>
      \<not> (\<exists>v vs. vc_get (tags a) ''COMPOSER'' = v # vs \<and> \<not> blank v))
   \<and> (''work'' \<in> set (snd (has_proper_metadata a)) \<longleftrightarrow>
      \<not> (\<exists>v vs. vc_get (tags a) ''ALBUM'' = v # vs \<and> \<not> blank v)
      \<and> \<not> (\<exists>v vs. vc_get (tags a) ''WORK'' = v # vs \<and> \<not> blank v))
   \<and> (''title'' \<in> set (snd (has_proper_metadata a)) \<longleftrightarrow>
      \<not> (\<exists>v vs. vc_get (tags a) ''TITLE'' = v # vs \<and> \<not> blank v))
   \<and> (''artist'' \<in> set (snd (has_proper_metadata a)) \<longleftrightarrow>
      \<not> (\<exists>v vs. vc_get (tags a) ''ARTIST'' = v # vs \<and> \<not> blank v)
      \<and> \<not> (\<exists>v vs. vc_get (tags a) ''ALBUMARTIST'' = v # vs \<and> \<not> blank v))
   \<and> snd (has_proper_metadata a) =
        filter (\<lambda>n. n \<in> set (snd (has_proper_metadata a)))
          [''composer'', ''work'', ''title'', ''artist'']
   \<and> (fst (has_proper_metadata a) \<longleftrightarrow> snd (has_proper_metadata a) = [])"
proof -
  let ?m = "snd (has_proper_metadata a)"
  have c: "''composer'' \<in> set ?m \<longleftrightarrow> \<not> tag_has_value a ''COMPOSER''"
    by (simp add: has_proper_metadata_missing required_fields_def)
  have w: "''work'' \<in> set ?m \<longleftrightarrow> \<not> tag_has_value a ''ALBUM'' \<and> \<not> tag_has_value a ''WORK''"
    by (simp add: has_proper_metadata_missing required_fields_def)
  have t: "''title'' \<in> set ?m \<longleftrightarrow> \<not> tag_has_value a ''TITLE''"
    by (simp add: has_proper_metadata_missing required_fields_def)
  have r: "''artist'' \<in> set ?m \<longleftrightarrow> \<not> tag_has_value a ''ARTIST'' \<and> \<not> tag_has_value a ''ALBUMARTIST''"
    by (simp add: has_proper_metadata_missing required_fields_def)
  have o: "?m = filter (\<lambda>n. n \<in> set ?m) [''composer'', ''work'', ''title'', ''artist'']"
    by (simp add: has_proper_metadata_missing required_fields_def)
  have f: "fst (has_proper_metadata a) \<longleftrightarrow> ?m = []"
    by (simp add: has_proper_metadata_def Let_def)
  from c w t r o f show ?thesis
    unfolding tag_has_value_iff py_strip_blank by blast
qed

lemma vc_get_blank_first_title:
  "vc_get (tags blank_first_title) ''COMPOSER'' = [''Bach, Johann Sebastian'']"
  "vc_get (tags blank_first_title) ''ALBUM'' = [''Mass in B minor, BWV 232'']"
  "vc_get (tags blank_first_title) ''WORK'' = []"
  "vc_get (tags blank_first_title) ''TITLE'' = ['''', ''Kyrie'']"
  "vc_get (tags blank_first_title) ''ARTIST'' = [''Gardiner'']"
  "vc_get (tags blank_first_title) ''ALBUMARTIST'' = []"
  by (simp_all add: blank_first_title_def vc_get_def py_lower_def lower_char_def upper_letters_def lower_letters_def)

lemma py_strip_samples:
  "py_strip '''' = ''''" "py_strip ''Kyrie'' = ''Kyrie''" "py_strip ''Gardiner'' \<noteq> []"
  "py_strip ''Bach, Johann Sebastian'' \<noteq> []" "py_strip ''Mass in B minor, BWV 232'' \<noteq> []"
  by (simp_all add: py_strip_def strip_where_def py_isspace_def)

lemma vc_get_nbsp_title:
  "vc_get (tags nbsp_title) ''COMPOSER'' = [''Faur'' @ [CHR 0xE9] @ '', Gabriel'']"
  "vc_get (tags nbsp_title) ''ALBUM'' = [[CHR 0x09]]"
  "vc_get (tags nbsp_title) ''WORK'' = [''Requiem, Op. 48'']"
  "vc_get (tags nbsp_title) ''TITLE'' = [[CHR 0xA0, CHR 0x20, CHR 0x85]]"
  "vc_get (tags nbsp_title) ''ARTIST'' = []"
  "vc_get (tags nbsp_title) ''ALBUMARTIST'' = [''Herreweghe'']"
  by (simp_all add: nbsp_title_def vc_get_def py_lower_def lower_char_def upper_letters_def
      lower_letters_def)

theorem has_proper_metadata_first_values_witness:
  "snd (has_proper_metadata nbsp_title) = [''title'']
   \<and> \<not> fst (has_proper_metadata nbsp_title)"
proof -
  let ?m = "snd (has_proper_metadata nbsp_title)"
  note t = has_proper_metadata_first_values[of nbsp_title]
  have 1: "''title'' \<in> set ?m"
    using t by (simp add: vc_get_nbsp_title blank_def white_space_def)
  have 2: "''composer'' \<notin> set ?m"
    using t by (simp add: vc_get_nbsp_title blank_def white_space_def)
  have 3: "''work'' \<notin> set ?m"
    using t by (simp add: vc_get_nbsp_title blank_def white_space_def)
  have 4: "''artist'' \<notin> set ?m"
    using t by (simp add: vc_get_nbsp_title blank_def white_space_def)
  have o: "?m = filter (\<lambda>n. n \<in> set ?m) [''composer'', ''work'', ''title'', ''artist'']"
    using t by (elim conjE)
  have f: "fst (has_proper_metadata nbsp_title) \<longleftrightarrow> ?m = []"
    using t by (elim conjE)
  have "filter (\<lambda>n. n \<in> set ?m) [''composer'', ''work'', ''title'', ''artist''] = [''title'']"
    using 1 2 3 4 by simp
  with o have m: "?m = [''title'']" by simp
  with f show ?thesis by simp
qed

text \<open>
  The claim as written counts a field as present when an alias tag holds any value that is
  not blank. Here TITLE holds the values \<open>''''\<close> and \<open>''Kyrie''\<close>: it holds a value that is not
  blank, and the title is reported missing, because only the first value is looked at.
\<close>

theorem has_proper_metadata_any_value_counterexample:
  "''Kyrie'' \<in> set (vc_get (tags blank_first_title) ''TITLE'')
   \<and> \<not> blank ''Kyrie''
   \<and> has_proper_metadata blank_first_title = (False, [''title''])"
  by (simp add: has_proper_metadata_def required_fields_def tag_has_value_def
      vc_get_blank_first_title py_strip_samples blank_def white_space_def)


section \<open>Properties of the comparison\<close>

lemma compare_fields_text:
  "list_all (text_or_missing kvs) (map fst cmps) \<Longrightarrow>
   compare_fields kvs cur cmps (ch, sm) =
     Inr (ch \<or> list_ex (differs kvs cur) cmps,
          sm @ map (\<lambda>p. (snd p, old_value cur (snd p), new_text kvs (fst p)))
                 (filter (differs kvs cur) cmps))"
proof (induction cmps arbitrary: ch sm)
  case Nil
  then show ?case by simp
next
  case (Cons p cmps)
  obtain nk ok where p: "p = (nk, ok)" by (cases p)
  from Cons.prems have t: "text_or_missing kvs nk" and rest: "list_all (text_or_missing kvs) (map fst cmps)"
    by (simp_all add: p)
  note ih = Cons.IH[OF rest]
  show ?case
  proof (cases "dict_get kvs nk")
    case JNull
    then show ?thesis by (simp add: p ih differs_def new_text_def)
  next
    case (JStr s)
    then show ?thesis by (simp add: p ih differs_def new_text_def Let_def)
  qed (use t in \<open>simp_all add: text_or_missing_def\<close>)
qed

text \<open>
  C5. For every new record whose composer, work and movement each hold a string or are
  missing, and every snapshot of the existing tags, the comparison raises nothing and its
  changed flag is true exactly when at least one of the pairs composer/COMPOSER, work/ALBUM,
  movement/TITLE has a new value that is not empty and is not the same text as the old
  value (the first item when the old value is a list); so it is false when every new value
  is empty or the same text as the old one. Two values are the same text when they are
  equal after case folding and trimming: every capital letter replaced by its small letter,
  as \<^verbatim>\<open>str.lower\<close> does, and the whitespace taken from both ends.
\<close>

theorem detect_changes_flag:
  assumes "text_or_missing kvs ''composer''"
    and "text_or_missing kvs ''work''"
    and "text_or_missing kvs ''movement''"
  shows "\<exists>changes_summary.
     detect_changes (JObj kvs) cur =
       Inr ((new_text kvs ''composer'' \<noteq> []
               \<and> \<not> same_text (new_text kvs ''composer'') (old_value cur ''COMPOSER''))
            \<or> (new_text kvs ''work'' \<noteq> []
               \<and> \<not> same_text (new_text kvs ''work'') (old_value cur ''ALBUM''))
            \<or> (new_text kvs ''movement'' \<noteq> []
               \<and> \<not> same_text (new_text kvs ''movement'') (old_value cur ''TITLE'')),
            changes_summary)"
proof -
  from assms have "list_all (text_or_missing kvs) (map fst comparisons)"
    by (simp add: comparisons_def)
  from compare_fields_text[OF this, of cur False "[]"]
  have "detect_changes (JObj kvs) cur =
     Inr (list_ex (differs kvs cur) comparisons,
          map (\<lambda>p. (snd p, old_value cur (snd p), new_text kvs (fst p)))
            (filter (differs kvs cur) comparisons))"
    by (simp add: detect_changes_def)
  moreover have "list_ex (differs kvs cur) comparisons \<longleftrightarrow>
      (new_text kvs ''composer'' \<noteq> []
         \<and> \<not> same_text (new_text kvs ''composer'') (old_value cur ''COMPOSER''))
      \<or> (new_text kvs ''work'' \<noteq> []
         \<and> \<not> same_text (new_text kvs ''work'') (old_value cur ''ALBUM''))
      \<or> (new_text kvs ''movement'' \<noteq> []
         \<and> \<not> same_text (new_text kvs ''movement'') (old_value cur ''TITLE''))"
    by (simp add: comparisons_def differs_def same_text_normalized)
  ultimately show ?thesis by simp
qed

lemma normalized_samples:
  "normalized ''Bach, J.S.'' = ''bach, j.s.''"
  "normalized ''bach, j.s.'' = ''bach, j.s.''"
  "normalized ''Bach'' = ''bach''"
  "normalized ''Bach, Johann Sebastian'' = ''bach, johann sebastian''"
  "normalized ''Kyrie'' = ''kyrie''"
  "normalized ''kyrie '' = ''kyrie''"
  "normalized ''Gloria'' = ''gloria''"
  "normalized [] = []"
  by (simp_all add: normalized_def py_lower_def lower_char_def upper_letters_def lower_letters_def
      py_strip_def strip_where_def py_isspace_def)

lemma normalized_latin1:
  "normalized ('' REQUIEM, op. 48 de FAUR'' @ [CHR 0xC9, CHR 0xA0])
     = ''requiem, op. 48 de faur'' @ [CHR 0xE9]"
  "normalized (''Requiem, Op. 48 de Faur'' @ [CHR 0xE9, CHR 0x09])
     = ''requiem, op. 48 de faur'' @ [CHR 0xE9]"
  by (simp_all add: normalized_def py_lower_def lower_char_def upper_letters_def
      lower_letters_def py_strip_def strip_where_def py_isspace_def)

text \<open>
  The examples of the specification, then a new value that is empty beside one that agrees,
  a pair that differs in accented capitals and in whitespace at the ends only (a no-break
  space, a TAB), and an old value that is a list: its first item counts.
\<close>

theorem detect_changes_flag_witness:
  "(\<exists>changes_summary.
      detect_changes (JObj [(''composer'', JStr ''Bach, J.S.'')])
        [(''COMPOSER'', Single ''bach, j.s.'')] = Inr (False, changes_summary))
   \<and> (\<exists>changes_summary.
      detect_changes (JObj [(''composer'', JStr ''Bach, Johann Sebastian'')])
        [(''COMPOSER'', Single ''Bach'')] = Inr (True, changes_summary))
   \<and> (\<exists>changes_summary.
      detect_changes
        (JObj [(''composer'', JStr ''Bach, J.S.''), (''work'', JStr []), (''movement'', JNull)])
        [(''COMPOSER'', Single ''bach, j.s.''), (''ALBUM'', Single ''Mass in B minor'')]
        = Inr (False, changes_summary))
   \<and> (\<exists>changes_summary.
      detect_changes (JObj [(''work'', JStr ('' REQUIEM, op. 48 de FAUR'' @ [CHR 0xC9, CHR 0xA0]))])
        [(''ALBUM'', Single (''Requiem, Op. 48 de Faur'' @ [CHR 0xE9, CHR 0x09]))]
        = Inr (False, changes_summary))
   \<and> (\<exists>changes_summary.
      detect_changes (JObj [(''movement'', JStr ''Kyrie'')])
        [(''TITLE'', Multi [''kyrie '', ''Gloria''])] = Inr (False, changes_summary))
   \<and> (\<exists>changes_summary.
      detect_changes (JObj [(''movement'', JStr ''Kyrie'')])
        [(''TITLE'', Multi [''Gloria'', ''Kyrie''])] = Inr (True, changes_summary))"
proof -
  let ?k1 = "[(''composer'', JStr ''Bach, J.S.'')]"
  let ?c1 = "[(''COMPOSER'', Single ''bach, j.s.'')]"
  let ?k2 = "[(''composer'', JStr ''Bach, Johann Sebastian'')]"
  let ?c2 = "[(''COMPOSER'', Single ''Bach'')]"
  let ?k3 = "[(''composer'', JStr ''Bach, J.S.''), (''work'', JStr []), (''movement'', JNull)]"
  let ?c3 = "[(''COMPOSER'', Single ''bach, j.s.''), (''ALBUM'', Single ''Mass in B minor'')]"
  let ?k4 = "[(''work'', JStr ('' REQUIEM, op. 48 de FAUR'' @ [CHR 0xC9, CHR 0xA0]))]"
  let ?c4 = "[(''ALBUM'', Single (''Requiem, Op. 48 de Faur'' @ [CHR 0xE9, CHR 0x09]))]"
  let ?k5 = "[(''movement'', JStr ''Kyrie'')]"
  let ?c5 = "[(''TITLE'', Multi [''kyrie '', ''Gloria''])]"
  let ?c6 = "[(''TITLE'', Multi [''Gloria'', ''Kyrie''])]"
  have a1: "text_or_missing ?k1 ''composer''" "text_or_missing ?k1 ''work''"
    "text_or_missing ?k1 ''movement''"
    by (simp_all add: text_or_missing_def dict_get_def)
  have a2: "text_or_missing ?k2 ''composer''" "text_or_missing ?k2 ''work''"
    "text_or_missing ?k2 ''movement''"
    by (simp_all add: text_or_missing_def dict_get_def)
  have a3: "text_or_missing ?k3 ''composer''" "text_or_missing ?k3 ''work''"
    "text_or_missing ?k3 ''movement''"
    by (simp_all add: text_or_missing_def dict_get_def)
  have a4: "text_or_missing ?k4 ''composer''" "text_or_missing ?k4 ''work''"
    "text_or_missing ?k4 ''movement''"
    by (simp_all add: text_or_missing_def dict_get_def)
  have a5: "text_or_missing ?k5 ''composer''" "text_or_missing ?k5 ''work''"
    "text_or_missing ?k5 ''movement''"
    by (simp_all add: text_or_missing_def dict_get_def)
  have 1: "\<exists>changes_summary. detect_changes (JObj ?k1) ?c1 = Inr (False, changes_summary)"
    using detect_changes_flag[OF a1, of ?c1]
    by (simp add: new_text_def dict_get_def old_value_def same_text_normalized normalized_samples)
  have 2: "\<exists>changes_summary. detect_changes (JObj ?k2) ?c2 = Inr (True, changes_summary)"
    using detect_changes_flag[OF a2, of ?c2]
    by (simp add: new_text_def dict_get_def old_value_def same_text_normalized normalized_samples)
  have 3: "\<exists>changes_summary. detect_changes (JObj ?k3) ?c3 = Inr (False, changes_summary)"
    using detect_changes_flag[OF a3, of ?c3]
    by (simp add: new_text_def dict_get_def old_value_def same_text_normalized normalized_samples)
  have 4: "\<exists>changes_summary. detect_changes (JObj ?k4) ?c4 = Inr (False, changes_summary)"
    using detect_changes_flag[OF a4, of ?c4] normalized_latin1
    by (simp add: new_text_def dict_get_def old_value_def same_text_normalized)
  have 5: "\<exists>changes_summary. detect_changes (JObj ?k5) ?c5 = Inr (False, changes_summary)"
    using detect_changes_flag[OF a5, of ?c5]
    by (simp add: new_text_def dict_get_def old_value_def same_text_normalized normalized_samples)
  have 6: "\<exists>changes_summary. detect_changes (JObj ?k5) ?c6 = Inr (True, changes_summary)"
    using detect_changes_flag[OF a5, of ?c6]
    by (simp add: new_text_def dict_get_def old_value_def same_text_normalized normalized_samples)
  from 1 2 3 4 5 6 show ?thesis by simp
qed


section \<open>Properties of writing and reading back\<close>

lemma lower_tag_names:
  "py_lower ''COMPOSER'' = ''composer''" "py_lower ''ALBUM'' = ''album''"
  "py_lower ''WORK'' = ''work''" "py_lower ''TITLE'' = ''title''"
  "py_lower ''ARTIST'' = ''artist''" "py_lower ''ALBUMARTIST'' = ''albumartist''"
  "py_lower ''ORCHESTRA'' = ''orchestra''" "py_lower ''ENSEMBLE'' = ''ensemble''"
  "py_lower ''PERFORMER'' = ''performer''" "py_lower ''DATE'' = ''date''"
  "py_lower ''DISCNUMBER'' = ''discnumber''" "py_lower ''TRACKNUMBER'' = ''tracknumber''"
  by (simp_all add: py_lower_def lower_char_def upper_letters_def lower_letters_def)

lemma those_the_str: "those (map (the_str \<circ> JStr) ss) = Some ss"
  by (induction ss) simp_all

lemma py_join_strings: "py_join sep (JArr (map JStr ss)) = Inr (join sep ss)"
  by (simp add: py_join_def those_the_str)

lemma vc_get_append: "vc_get (xs @ ys) key = vc_get xs key @ vc_get ys key"
  by (simp add: vc_get_def)

lemma vc_get_Cons:
  "vc_get ((k, v) # xs) key = (if py_lower k = py_lower key then v # vc_get xs key else vc_get xs key)"
  by (simp add: vc_get_def)

lemma vc_get_Nil: "vc_get [] key = []"
  by (simp add: vc_get_def)

lemma vc_get_same_key:
  "vc_get (map (Pair k) vs) key = (if py_lower k = py_lower key then vs else [])"
  by (simp add: vc_get_def comp_def)

lemma those_as_json: "those (map (the_str \<circ> snd) (map as_json cs)) = Some (map snd cs)"
  by (induction cs) (simp_all add: as_json_def)

lemma zip_as_json: "zip (map fst (map as_json cs)) (map snd cs) = cs"
  by (induction cs) (simp_all add: as_json_def)

lemma tag_assignments_full:
  assumes "dict_get kvs ''composer'' = JStr composer" "composer \<noteq> []"
    and "dict_get kvs ''work'' = JStr work" "work \<noteq> []"
    and "dict_get kvs ''movement'' = JStr movement" "movement \<noteq> []"
    and "dict_get kvs ''performers'' = JArr (map JStr performers)" "performers \<noteq> []"
    and "dict_get kvs ''orchestra'' = JStr orchestra" "orchestra \<noteq> []"
    and "dict_get kvs ''soloists'' = JArr (map JStr soloists)" "soloists \<noteq> []"
    and "truthy (dict_get kvs ''date'')"
    and "truthy (dict_get kvs ''disc'')"
    and "truthy (dict_get kvs ''track'')"
  shows "tag_assignments env (JObj kvs) =
     Inr (map as_json (full_comments composer work movement performers orchestra soloists
            (py_str env (dict_get kvs ''date'')) (py_str env (dict_get kvs ''disc''))
            (py_str env (dict_get kvs ''track''))))"
  using assms
  by (simp add: tag_assignments_def put_tag_def py_join_strings lower_tag_names
      full_comments_def as_json_def comp_def Let_def)

lemma vc_get_full:
  fixes composer work movement performers orchestra soloists date disc track
  defines "C \<equiv> full_comments composer work movement performers orchestra soloists date disc track"
  shows "vc_get C ''COMPOSER'' = [composer]" "vc_get C ''ALBUM'' = [work]"
    "vc_get C ''WORK'' = [work]" "vc_get C ''TITLE'' = [movement]"
    "vc_get C ''ARTIST'' = [join '', '' performers]"
    "vc_get C ''ALBUMARTIST'' = [join '', '' performers]"
    "vc_get C ''ORCHESTRA'' = [orchestra]" "vc_get C ''ENSEMBLE'' = [orchestra]"
    "vc_get C ''PERFORMER'' = soloists" "vc_get C ''DATE'' = [date]"
    "vc_get C ''DISCNUMBER'' = [disc]" "vc_get C ''TRACKNUMBER'' = [track]"
  unfolding C_def full_comments_def
  by (simp_all add: vc_get_append vc_get_Cons vc_get_Nil vc_get_same_key lower_tag_names)

lemma snapshot_entry_read_back:
  "vc_get (tags a) field \<noteq> [] \<Longrightarrow>
   snapshot_entry a field = [(field, read_back (vc_get (tags a) field))]"
  by (simp add: snapshot_entry_def read_back_def split: list.splits)

lemma snapshot_full:
  fixes composer work movement performers orchestra soloists date disc track p
  defines "a \<equiv> \<lparr>opened_from = p,
     tags = full_comments composer work movement performers orchestra soloists date disc track\<rparr>"
  assumes "soloists \<noteq> []"
  shows "get_current_metadata a =
     [(''COMPOSER'', Single composer), (''ALBUM'', Single work), (''WORK'', Single work),
      (''TITLE'', Single movement), (''ARTIST'', Single (join '', '' performers)),
      (''ALBUMARTIST'', Single (join '', '' performers)), (''ORCHESTRA'', Single orchestra),
      (''ENSEMBLE'', Single orchestra), (''PERFORMER'', read_back soloists),
      (''DATE'', Single date), (''DISCNUMBER'', Single disc), (''TRACKNUMBER'', Single track)]"
  using assms(2) unfolding a_def get_current_metadata_def snapshot_fields_def
  by (simp add: snapshot_entry_read_back vc_get_full read_back_def)

lemma validate_flac_file_InrD:
  "validate_flac_file fs p = Inr a \<Longrightarrow>
   \<exists>f cs. map_of fs p = Some f \<and> take 4 (raw f) = ''fLaC'' \<and> vorbis f = Some cs
          \<and> a = \<lparr>opened_from = p, tags = cs\<rparr>"
  by (auto simp: validate_flac_file_def Let_def split: option.splits if_splits)

lemma validate_after_save:
  "map_of fs p = Some f \<Longrightarrow> take 4 (raw f) = ''fLaC'' \<Longrightarrow>
   validate_flac_file (AList.update p (f\<lparr>vorbis := Some cs\<rparr>) fs) p
     = Inr \<lparr>opened_from = p, tags = cs\<rparr>"
  by (simp add: validate_flac_file_def update_conv')

lemma flac_save_strings:
  assumes "map_of fs p = Some f" "take 4 (raw f) = ''fLaC''" "vorbis f = Some old"
    and "\<not> save_fails env p"
  shows "flac_save env fs p (map as_json cs) = Inr (AList.update p (f\<lparr>vorbis := Some cs\<rparr>) fs)"
proof -
  have "flac_save env fs p (map as_json cs) =
     (case map_of fs p of
        None \<Rightarrow> Inl (OSError, [path_text p])
      | Some f \<Rightarrow>
          if take 4 (raw f) \<noteq> ''fLaC'' \<or> vorbis f = None \<or> save_fails env p
          then Inl (OSError, [path_text p])
          else Inr (AList.update p (f\<lparr>vorbis := Some cs\<rparr>) fs))"
    by (simp only: flac_save_def those_as_json zip_as_json option.case)
  with assms show ?thesis by simp
qed

lemma apply_then_snapshot_full:
  assumes "dict_get kvs ''composer'' = JStr composer" "composer \<noteq> []"
    and "dict_get kvs ''work'' = JStr work" "work \<noteq> []"
    and "dict_get kvs ''movement'' = JStr movement" "movement \<noteq> []"
    and "dict_get kvs ''performers'' = JArr (map JStr performers)" "performers \<noteq> []"
    and "dict_get kvs ''orchestra'' = JStr orchestra" "orchestra \<noteq> []"
    and "dict_get kvs ''soloists'' = JArr (map JStr soloists)" "soloists \<noteq> []"
    and "truthy (dict_get kvs ''date'')"
    and "truthy (dict_get kvs ''disc'')"
    and "truthy (dict_get kvs ''track'')"
    and valid: "validate_flac_file fs p = Inr a"
    and writable: "\<not> save_fails env p"
    and arg: "audio_arg = None \<or> audio_arg = Some a"
  shows "\<exists>fs' a'. apply_metadata_to_flac env fs p (JObj kvs) audio_arg = Inr (True, fs')
     \<and> validate_flac_file fs' p = Inr a'
     \<and> get_current_metadata a' =
        [(''COMPOSER'', Single composer), (''ALBUM'', Single work), (''WORK'', Single work),
         (''TITLE'', Single movement), (''ARTIST'', Single (join '', '' performers)),
         (''ALBUMARTIST'', Single (join '', '' performers)), (''ORCHESTRA'', Single orchestra),
         (''ENSEMBLE'', Single orchestra), (''PERFORMER'', read_back soloists),
         (''DATE'', Single (py_str env (dict_get kvs ''date''))),
         (''DISCNUMBER'', Single (py_str env (dict_get kvs ''disc''))),
         (''TRACKNUMBER'', Single (py_str env (dict_get kvs ''track'')))]"
proof -
  let ?C = "full_comments composer work movement performers orchestra soloists
              (py_str env (dict_get kvs ''date'')) (py_str env (dict_get kvs ''disc''))
              (py_str env (dict_get kvs ''track''))"
  from validate_flac_file_InrD[OF valid] obtain f cs where
    f: "map_of fs p = Some f" "take 4 (raw f) = ''fLaC''" "vorbis f = Some cs"
    and a: "a = \<lparr>opened_from = p, tags = cs\<rparr>" by blast
  let ?fs' = "AList.update p (f\<lparr>vorbis := Some ?C\<rparr>) fs"
  have ta: "tag_assignments env (JObj kvs) = Inr (map as_json ?C)"
    by (rule tag_assignments_full) (use assms in simp_all)
  have sv: "flac_save env fs p (map as_json ?C) = Inr ?fs'"
    using f writable by (rule flac_save_strings)
  have handle: "(case audio_arg of Some h \<Rightarrow> Inr h | None \<Rightarrow> validate_flac_file fs p) = Inr a"
    using arg valid by auto
  have op: "opened_from a = p" using a by simp
  have ap: "apply_metadata_to_flac env fs p (JObj kvs) audio_arg = Inr (True, ?fs')"
    unfolding apply_metadata_to_flac_def apply_metadata_body_def handle by (simp add: ta op sv)
  have va: "validate_flac_file ?fs' p = Inr \<lparr>opened_from = p, tags = ?C\<rparr>"
    by (rule validate_after_save) (use f in simp_all)
  from ap va snapshot_full[OF \<open>soloists \<noteq> []\<close>] show ?thesis by blast
qed

text \<open>
  C6 (amended). For every record with all fields set, written by the tag writer into a valid
  file that can be saved, reading the file back with the snapshot gives ALBUM and WORK equal
  to the record's work, TITLE equal to its movement, ARTIST and ALBUMARTIST equal to its
  performers joined with a comma and a blank, ORCHESTRA and ENSEMBLE equal to its orchestra,
  DATE, DISCNUMBER and TRACKNUMBER equal to its date, disc and track as strings, and
  PERFORMER equal to the list of soloists when there are two or more, and to the one
  soloist as a plain string when there is exactly one.
\<close>

theorem write_then_snapshot:
  assumes "dict_get kvs ''composer'' = JStr composer" "composer \<noteq> []"
    and "dict_get kvs ''work'' = JStr work" "work \<noteq> []"
    and "dict_get kvs ''movement'' = JStr movement" "movement \<noteq> []"
    and "dict_get kvs ''performers'' = JArr (map JStr performers)" "performers \<noteq> []"
    and "dict_get kvs ''orchestra'' = JStr orchestra" "orchestra \<noteq> []"
    and "dict_get kvs ''soloists'' = JArr (map JStr soloists)" "soloists \<noteq> []"
    and "truthy (dict_get kvs ''date'')"
    and "truthy (dict_get kvs ''disc'')"
    and "truthy (dict_get kvs ''track'')"
    and "validate_flac_file fs p = Inr a"
    and "\<not> save_fails env p"
    and "audio_arg = None \<or> audio_arg = Some a"
  shows "\<exists>fs' a' snap.
       apply_metadata_to_flac env fs p (JObj kvs) audio_arg = Inr (True, fs')
     \<and> validate_flac_file fs' p = Inr a'
     \<and> snap = get_current_metadata a'
     \<and> map_of snap ''ALBUM'' = Some (Single work)
     \<and> map_of snap ''WORK'' = Some (Single work)
     \<and> map_of snap ''TITLE'' = Some (Single movement)
     \<and> map_of snap ''ARTIST'' = Some (Single (join '', '' performers))
     \<and> map_of snap ''ALBUMARTIST'' = Some (Single (join '', '' performers))
     \<and> map_of snap ''ORCHESTRA'' = Some (Single orchestra)
     \<and> map_of snap ''ENSEMBLE'' = Some (Single orchestra)
     \<and> map_of snap ''PERFORMER'' =
           Some (case soloists of [s] \<Rightarrow> Single s | _ \<Rightarrow> Multi soloists)
     \<and> map_of snap ''DATE'' = Some (Single (py_str env (dict_get kvs ''date'')))
     \<and> map_of snap ''DISCNUMBER'' = Some (Single (py_str env (dict_get kvs ''disc'')))
     \<and> map_of snap ''TRACKNUMBER'' = Some (Single (py_str env (dict_get kvs ''track'')))"
proof -
  from apply_then_snapshot_full[OF assms] obtain fs' a' where
    ap: "apply_metadata_to_flac env fs p (JObj kvs) audio_arg = Inr (True, fs')"
    and va: "validate_flac_file fs' p = Inr a'"
    and sn: "get_current_metadata a' =
        [(''COMPOSER'', Single composer), (''ALBUM'', Single work), (''WORK'', Single work),
         (''TITLE'', Single movement), (''ARTIST'', Single (join '', '' performers)),
         (''ALBUMARTIST'', Single (join '', '' performers)), (''ORCHESTRA'', Single orchestra),
         (''ENSEMBLE'', Single orchestra), (''PERFORMER'', read_back soloists),
         (''DATE'', Single (py_str env (dict_get kvs ''date''))),
         (''DISCNUMBER'', Single (py_str env (dict_get kvs ''disc''))),
         (''TRACKNUMBER'', Single (py_str env (dict_get kvs ''track'')))]"
    by blast
  show ?thesis
    apply (rule exI[of _ fs'], rule exI[of _ a'], rule exI[of _ "get_current_metadata a'"])
    apply (simp only: ap va sn)
    apply (simp add: read_back_def)
    done
qed

lemma romance_record_fields:
  "dict_get romance_record ''composer'' = JStr ''Chopin, Frederic''"
  "dict_get romance_record ''work'' = JStr ''Piano Concerto No. 1, Op. 11''"
  "dict_get romance_record ''movement'' = JStr ''II. Romance''"
  "dict_get romance_record ''performers'' = JArr (map JStr [''Claudio Abbado'', ''Martha Argerich''])"
  "dict_get romance_record ''orchestra'' = JStr ''London Symphony Orchestra''"
  "dict_get romance_record ''soloists'' = JArr (map JStr [''Martha Argerich''])"
  "dict_get romance_record ''date'' = JStr ''1968''"
  "dict_get romance_record ''disc'' = JStr ''1''"
  "dict_get romance_record ''track'' = JInt 2"
  by (simp_all add: romance_record_def dict_get_def)

lemma validate_tagged_flac:
  "validate_flac_file [(track1, tagged_flac)] track1
     = Inr \<lparr>opened_from = track1, tags = [(''title'', ''Track 02'')]\<rparr>"
  by (simp add: validate_flac_file_def tagged_flac_def)

lemma py_str_track: "py_str env (JInt 2) = ''2''"
  by (simp add: py_str_def str_int_def str_nat.simps[of 2] digit_char_def)

theorem write_then_snapshot_witness:
  "\<exists>fs' a'.
       apply_metadata_to_flac offline_env [(track1, tagged_flac)] track1 (JObj romance_record) None
         = Inr (True, fs')
     \<and> validate_flac_file fs' track1 = Inr a'
     \<and> map_of (get_current_metadata a') ''ALBUM'' = Some (Single ''Piano Concerto No. 1, Op. 11'')
     \<and> map_of (get_current_metadata a') ''ARTIST'' = Some (Single ''Claudio Abbado, Martha Argerich'')
     \<and> map_of (get_current_metadata a') ''PERFORMER'' = Some (Single ''Martha Argerich'')
     \<and> map_of (get_current_metadata a') ''TRACKNUMBER'' = Some (Single ''2'')"
proof -
  have w: "\<not> save_fails offline_env track1" by (simp add: offline_env_def)
  have t: "truthy (dict_get romance_record ''date'')" "truthy (dict_get romance_record ''disc'')"
    "truthy (dict_get romance_record ''track'')"
    by (simp_all add: romance_record_fields)
  from write_then_snapshot[OF romance_record_fields(1) _ romance_record_fields(2) _
      romance_record_fields(3) _ romance_record_fields(4) _ romance_record_fields(5) _
      romance_record_fields(6) _ t validate_tagged_flac w, of None]
  show ?thesis
    by (simp add: romance_record_fields py_str_track) (auto simp: py_str_def)
qed

text \<open>
  The claim as written reads PERFORMER back as the record's list of soloists. A record with
  one soloist reads back as the plain string, which is not the one-item list.
\<close>

theorem snapshot_single_soloist_counterexample:
  "dict_get romance_record ''soloists'' = JArr [JStr ''Martha Argerich'']
   \<and> (case apply_metadata_to_flac offline_env [(track1, tagged_flac)] track1
              (JObj romance_record) None of
         Inl e \<Rightarrow> False
       | Inr (success, fs') \<Rightarrow>
           success
         \<and> (case validate_flac_file fs' track1 of
               Inl d \<Rightarrow> False
             | Inr a' \<Rightarrow>
                 map_of (get_current_metadata a') ''PERFORMER'' = Some (Single ''Martha Argerich'')
               \<and> map_of (get_current_metadata a') ''PERFORMER''
                    \<noteq> Some (Multi [''Martha Argerich''])))"
proof -
  have w: "\<not> save_fails offline_env track1" by (simp add: offline_env_def)
  have t: "truthy (dict_get romance_record ''date'')" "truthy (dict_get romance_record ''disc'')"
    "truthy (dict_get romance_record ''track'')"
    by (simp_all add: romance_record_fields)
  from apply_then_snapshot_full[OF romance_record_fields(1) _ romance_record_fields(2) _
      romance_record_fields(3) _ romance_record_fields(4) _ romance_record_fields(5) _
      romance_record_fields(6) _ t validate_tagged_flac w, of None]
  obtain fs' a' where
    "apply_metadata_to_flac offline_env [(track1, tagged_flac)] track1 (JObj romance_record)
       None = Inr (True, fs')"
    "validate_flac_file fs' track1 = Inr a'"
    "map_of (get_current_metadata a') ''PERFORMER'' = Some (read_back [''Martha Argerich''])"
    by auto
  then show ?thesis
    by (auto simp: read_back_def romance_record_fields)
qed


section \<open>Properties of the conversion\<close>

lemma free_backup_path_result:
  "free_backup_path env fs folder stem fmt sfx k bp = r \<Longrightarrow>
     (r = bp \<and> \<not> path_exists env fs bp)
   \<or> (path_exists env fs bp
      \<and> (\<exists>n\<ge>k. r = backup_candidate folder stem fmt sfx n
             \<and> \<not> path_exists env fs r
             \<and> (\<forall>j. k \<le> j \<and> j < n \<longrightarrow>
                    path_exists env fs (backup_candidate folder stem fmt sfx j))))"
proof (induction env fs folder stem fmt sfx k bp arbitrary: r rule: free_backup_path.induct)
  case (1 env fs folder stem fmt sfx counter backup_path)
  show ?case
  proof (cases "path_exists env fs backup_path")
    case False
    with "1.prems" show ?thesis by (simp add: free_backup_path.simps)
  next
    case True
    let ?c = "backup_candidate folder stem fmt sfx"
    from "1.prems" True
    have r: "free_backup_path env fs folder stem fmt sfx (counter + 1) (?c counter) = r"
      by (simp add: free_backup_path.simps[of env fs folder stem fmt sfx counter backup_path])
    from "1.IH"[OF True r]
    consider (stop) "r = ?c counter" "\<not> path_exists env fs (?c counter)"
      | (go) n where "path_exists env fs (?c counter)" "n \<ge> counter + 1" "r = ?c n"
          "\<not> path_exists env fs r" "\<forall>j. counter + 1 \<le> j \<and> j < n \<longrightarrow> path_exists env fs (?c j)"
      by blast
    then show ?thesis
    proof cases
      case stop
      with True show ?thesis by (intro disjI2 conjI exI[of _ counter]) auto
    next
      case go
      have "\<forall>j. counter \<le> j \<and> j < n \<longrightarrow> path_exists env fs (?c j)"
      proof (intro allI impI)
        fix j assume j: "counter \<le> j \<and> j < n"
        show "path_exists env fs (?c j)"
        proof (cases "j = counter")
          case True with go(1) show ?thesis by simp
        next
          case False with j go(5) show ?thesis by simp
        qed
      qed
      with True go show ?thesis by (intro disjI2 conjI exI[of _ n]) auto
    qed
  qed
qed

lemma temp_output_differs: "temp_output_of p \<noteq> p"
proof
  assume eq: "temp_output_of p = p"
  let ?stem = "path_stem (name p)" and ?sfx = "path_suffix (name p)"
  from eq have "name (temp_output_of p) = name p" by simp
  then have e: "''.'' @ ?stem @ ''_converted.flac'' = ?stem @ ?sfx"
    by (simp add: temp_output_of_def path_stem_suffix)
  then have "length (''.'' @ ?stem @ ''_converted.flac'') = length (?stem @ ?sfx)" by simp
  then have len: "length ?sfx = 16" by simp
  from path_suffix_shape[of "name p"] len obtain r where
    r: "?sfx = CHR ''.'' # r" "CHR ''.'' \<notin> set r" by auto
  with len have lr: "length r = 15" by simp
  from e have "rev (''.'' @ ?stem @ ''_converted.flac'') = rev (?stem @ ?sfx)" by simp
  then have "take 15 (rev ''_converted.flac'' @ rev ?stem @ ''.'') = take 15 (rev ?sfx @ rev ?stem)"
    by simp
  then have "rev ''_converted.flac'' = take 15 (rev ?sfx)" using len by simp
  also have "\<dots> = rev r" using r lr by simp
  finally have "r = ''_converted.flac''" by (metis rev_rev_ident)
  with r(2) show False by simp
qed

lemma backup_path_of_free: "\<not> path_exists env fs (backup_path_of env fs p fmt)"
  by (simp add: backup_path_of_def free_backup_path_free)

text \<open>
  The temporary output stands in the directory of the source, so that writing it makes no
  new directory; and what the handler of the conversion returns is never a handle.
\<close>

lemma ancestors_temp_output: "ancestors (temp_output_of p) = ancestors p"
  by (simp add: ancestors_def temp_output_of_def)

lemma dirs_of_written:
  assumes "map_of fs p = Some original"
  shows "set (dirs_of env (AList.update (temp_output_of p) out fs)) = set (dirs_of env fs)"
proof -
  from assms have "(p, original) \<in> set fs" by (rule map_of_SomeD)
  then have "p \<in> fst ` set fs" by force
  have u: "set (concat (map ancestors (map fst xs))) = (\<Union>q \<in> fst ` set xs. set (ancestors q))"
    for xs :: fs
    by auto
  have "fst ` set (AList.update (temp_output_of p) out fs) = insert (temp_output_of p) (fst ` set fs)"
    by (simp add: dom_update)
  then have "(\<Union>q \<in> fst ` set (AList.update (temp_output_of p) out fs). set (ancestors q))
      = set (ancestors p) \<union> (\<Union>q \<in> fst ` set fs. set (ancestors q))"
    by (simp add: ancestors_temp_output)
  also have "\<dots> = (\<Union>q \<in> fst ` set fs. set (ancestors q))"
    using \<open>p \<in> fst ` set fs\<close> by blast
  finally show ?thesis
    unfolding dirs_of_def set_append u by simp
qed

lemma convert_to_flac_handle:
  assumes "convert_to_flac env fs p = Inr (Some a, fs')"
  shows "which_ffmpeg env" "mkdir_ok env"
    "convert_body env fs p (detect_actual_format fs p) (temp_output_of p) = Inr (Some a, fs')"
  using assms
  by (auto simp: convert_to_flac_def Let_def split: if_splits sum.splits prod.splits)

lemma convert_to_flac_success:
  assumes ok: "convert_to_flac env fs p = Inr (Some a, fs')"
  obtains (success) stderr written fs1 original converted bp where
    "which_ffmpeg env" "mkdir_ok env"
    "ffmpeg env p (map_of fs p) = FfmpegExit 0 stderr written"
    "fs1 = (case written of Some out \<Rightarrow> AList.update (temp_output_of p) out fs | None \<Rightarrow> fs)"
    "map_of fs1 (temp_output_of p) = Some converted"
    "map_of fs p = Some original"
    "bp = backup_path_of env fs1 p (detect_actual_format fs p)"
    "fs' = AList.update p converted
             (AList.delete (temp_output_of p) (AList.update bp original (AList.delete p fs1)))"
    "validate_flac_file fs' p = Inr a"
proof -
  let ?t = "temp_output_of p"
  note w = convert_to_flac_handle(1)[OF ok] and m = convert_to_flac_handle(2)[OF ok]
    and cb = convert_to_flac_handle(3)[OF ok]
  from cb obtain rc stderr written where run: "ffmpeg env p (map_of fs p) = FfmpegExit rc stderr written"
    by (cases "ffmpeg env p (map_of fs p)") (auto simp: convert_body_def)
  define fs1 where "fs1 = (case written of Some out \<Rightarrow> AList.update ?t out fs | None \<Rightarrow> fs)"
  define bp where "bp = backup_path_of env fs1 p (detect_actual_format fs p)"
  have body: "convert_body env fs p (detect_actual_format fs p) ?t =
     (if rc \<noteq> 0
      then (case try_print env 315 (if stderr \<noteq> [] then [take 300 (py_strip stderr)] else []) of
              Inl c \<Rightarrow> Inl (c, fs1)
            | Inr u \<Rightarrow>
                (case unlink_if_exists env ?t fs1 of
                   Inl e \<Rightarrow> Inl ((e, [path_text ?t]), fs1)
                 | Inr fs2 \<Rightarrow> Inr (None, fs2)))
      else if \<not> path_exists env fs1 ?t then Inr (None, fs1)
      else (case map_of fs1 p of
              None \<Rightarrow> Inl ((OSError, [path_text p]), fs1)
            | Some original \<Rightarrow>
                (let fs2 = AList.update bp original (AList.delete p fs1)
                 in (case map_of fs2 ?t of
                       None \<Rightarrow> Inl ((OSError, [path_text ?t]), fs2)
                     | Some converted \<Rightarrow>
                         (let fs3 = AList.update p converted (AList.delete ?t fs2)
                          in (case validate_flac_file fs3 p of
                                Inr audio \<Rightarrow> Inr (Some audio, fs3)
                              | Inl d \<Rightarrow>
                                  (case try_print env 346 (diagnostic_texts p d) of
                                     Inl c \<Rightarrow> Inl (c, fs3)
                                   | Inr u \<Rightarrow> Inr (None, fs3))))))))"
    unfolding convert_body_def Let_def fs1_def bp_def run by simp
  from cb body have rc: "rc = 0" and ex: "path_exists env fs1 ?t"
    by (auto split: if_splits sum.splits)
  from cb body rc ex obtain original where o1: "map_of fs1 p = Some original"
    by (cases "map_of fs1 p") auto
  define fs2 where "fs2 = AList.update bp original (AList.delete p fs1)"
  from cb body rc ex o1 obtain converted where c2: "map_of fs2 ?t = Some converted"
    by (cases "map_of fs2 ?t") (auto simp: fs2_def Let_def)
  define fs3 where "fs3 = AList.update p converted (AList.delete ?t fs2)"
  from cb body rc ex o1 c2 have fin: "fs' = fs3" "validate_flac_file fs3 p = Inr a"
    by (auto simp: fs2_def[symmetric] fs3_def[symmetric] Let_def split: sum.splits)
  have tp: "?t \<noteq> p" by (rule temp_output_differs)
  have "\<not> path_exists env fs1 bp" unfolding bp_def by (rule backup_path_of_free)
  with ex have tb: "?t \<noteq> bp" by auto
  from c2 tp tb have c1: "map_of fs1 ?t = Some converted"
    by (simp add: fs2_def update_conv' delete_conv')
  from o1 tp have o: "map_of fs p = Some original"
    by (auto simp: fs1_def update_conv' split: option.splits)
  show ?thesis
    by (rule that[OF w m run[unfolded rc] fs1_def c1 o bp_def])
       (use fin in \<open>simp_all add: fs3_def fs2_def\<close>)
qed

text \<open>
  C3. When the conversion returns a handle: the source existed, and its content now stands in
  the backup directory under a path that was free before the call, so that no file was
  overwritten; the name of the backup is the stem of the source, \<^verbatim>\<open>_original_\<close>, the detected
  format and the suffix of the source, or, when that name was taken, the same with \<^verbatim>\<open>_k\<close>
  before the suffix, for the least \<open>k\<close> from 1 on whose name was free; every file other than
  the source, the backup and the temporary output is as it was; and the source path holds a
  file that \<^verbatim>\<open>validate_flac_file\<close> accepts. A name is taken when a file or a directory of that
  name exists, or it is the temporary output.
\<close>

theorem convert_to_flac_success_backup:
  fixes env fs p
  defines "stem \<equiv> path_stem (name p)"
    and "sfx \<equiv> path_suffix (name p)"
    and "fmt \<equiv> detect_actual_format fs p"
    and "taken \<equiv> \<lambda>q. path_exists env fs q \<or> q = temp_output_of p"
  assumes ok: "convert_to_flac env fs p = Inr (Some a, fs')"
  shows "\<exists>original bp.
        map_of fs p = Some original
      \<and> stem @ sfx = name p
      \<and> parent bp = backup_folder env
      \<and> (name bp = stem @ ''_original_'' @ fmt @ sfx
          \<or> (\<exists>k\<ge>1. name bp = stem @ ''_original_'' @ fmt @ ''_'' @ str_nat k @ sfx
                \<and> taken \<lparr>parent = backup_folder env, name = stem @ ''_original_'' @ fmt @ sfx\<rparr>
                \<and> (\<forall>j. 1 \<le> j \<and> j < k \<longrightarrow>
                       taken (backup_candidate (backup_folder env) stem fmt sfx j))))
      \<and> map_of fs bp = None
      \<and> \<not> is_dir env fs bp
      \<and> map_of fs' bp = Some original
      \<and> (\<forall>q. q \<noteq> bp \<and> q \<noteq> p \<and> q \<noteq> temp_output_of p \<longrightarrow> map_of fs' q = map_of fs q)
      \<and> validate_flac_file fs' p = Inr a"
proof -
  let ?t = "temp_output_of p"
  let ?base = "\<lparr>parent = backup_folder env, name = stem @ ''_original_'' @ fmt @ sfx\<rparr>"
  let ?c = "backup_candidate (backup_folder env) stem fmt sfx"
  from ok show ?thesis
  proof (cases rule: convert_to_flac_success)
    case (success stderr written fs1 original converted bp)
    note run = success(3) and fs1 = success(4) and c1 = success(5) and o = success(6)
      and bp = success(7) and fs' = success(8) and va = success(9)
    have other1: "q \<noteq> ?t \<Longrightarrow> map_of fs1 q = map_of fs q" for q
      by (cases written) (simp_all add: fs1 update_conv')
    have dirs1: "is_dir env fs1 q \<longleftrightarrow> is_dir env fs q" for q
      by (cases written) (simp_all add: fs1 is_dir_def dirs_of_written[OF o])
    have ex1: "path_exists env fs1 q \<Longrightarrow> taken q" for q
      using other1[of q] dirs1[of q]
      by (cases "q = ?t") (simp_all add: taken_def path_exists_def exists_file_def)
    have free: "\<not> path_exists env fs1 bp" unfolding bp by (rule backup_path_of_free)
    have tp: "?t \<noteq> p" by (rule temp_output_differs)
    from free c1 have bt: "bp \<noteq> ?t" by (auto simp: path_exists_def exists_file_def)
    from o tp have "path_exists env fs1 p"
      by (simp add: path_exists_def exists_file_def other1[of p])
    with free have bpp: "bp \<noteq> p" by auto
    from free bt have nb: "map_of fs bp = None"
      using other1[of bp] by (simp add: path_exists_def exists_file_def)
    from free have nd: "\<not> is_dir env fs bp"
      using dirs1[of bp] by (simp add: path_exists_def)
    have bkp: "map_of fs' bp = Some original"
      using bpp bt by (simp add: fs' update_conv' delete_conv')
    have rest: "\<forall>q. q \<noteq> bp \<and> q \<noteq> p \<and> q \<noteq> ?t \<longrightarrow> map_of fs' q = map_of fs q"
      by (simp add: fs' update_conv' delete_conv' other1)
    have bpr: "free_backup_path env fs1 (backup_folder env) stem fmt sfx 1 ?base = bp"
      by (simp add: bp backup_path_of_def stem_def sfx_def fmt_def)
    from free_backup_path_result[OF bpr]
    consider (first) "bp = ?base"
      | (later) n where "path_exists env fs1 ?base" "n \<ge> 1" "bp = ?c n"
          "\<forall>j. 1 \<le> j \<and> j < n \<longrightarrow> path_exists env fs1 (?c j)"
      by blast
    then have nm: "parent bp = backup_folder env
        \<and> (name bp = stem @ ''_original_'' @ fmt @ sfx
            \<or> (\<exists>k\<ge>1. name bp = stem @ ''_original_'' @ fmt @ ''_'' @ str_nat k @ sfx
                  \<and> taken ?base
                  \<and> (\<forall>j. 1 \<le> j \<and> j < k \<longrightarrow> taken (?c j))))"
    proof cases
      case first
      then show ?thesis by simp
    next
      case later
      have "parent bp = backup_folder env" using later(3) by (simp add: backup_candidate_def)
      moreover have "name bp = stem @ ''_original_'' @ fmt @ ''_'' @ str_nat n @ sfx"
        using later(3) by (simp add: backup_candidate_def)
      moreover have "taken ?base" using later(1) by (rule ex1)
      moreover have "\<forall>j. 1 \<le> j \<and> j < n \<longrightarrow> taken (?c j)" using later(4) ex1 by blast
      ultimately show ?thesis using later(2) by blast
    qed
    have ss: "stem @ sfx = name p" by (simp add: stem_def sfx_def path_stem_suffix)
    from nm have nm1: "parent bp = backup_folder env"
      and nm2: "name bp = stem @ ''_original_'' @ fmt @ sfx
            \<or> (\<exists>k\<ge>1. name bp = stem @ ''_original_'' @ fmt @ ''_'' @ str_nat k @ sfx
                  \<and> taken ?base
                  \<and> (\<forall>j. 1 \<le> j \<and> j < k \<longrightarrow> taken (?c j)))"
      by simp_all
    show ?thesis
      by (rule exI[of _ original], rule exI[of _ bp]) (intro conjI o ss nm1 nm2 nb nd bkp rest va)
  qed
qed

lemma track1_name_parts:
  "path_stem (name track1) = ''track1''" "path_suffix (name track1) = ''.flac''"
  by (simp_all add: track1_def path_stem_def path_suffix_def rfind_dot_def)

lemma str_nat_1: "str_nat 1 = ''1''" "str_nat (Suc 0) = ''1''"
  by (subst str_nat.simps, simp add: digit_char_def)+

lemma detect_mp3_library: "detect_actual_format mp3_library track1 = ''mp3''"
  by (simp add: detect_actual_format_def mp3_library_def mp3_file_def detect_header_def)

text \<open>
  The worked conversion, for every environment in which the transcoder works and writes
  \<open>fresh_flac\<close>, with the home directory and no further directories of the examples.
\<close>

lemma backup_path_example:
  assumes "home env = [''home'', ''user'']" "directories env = []"
  shows "backup_path_of env
     (AList.update (temp_output_of track1) fresh_flac mp3_library) track1 ''mp3''
   = \<lparr>parent = backups, name = ''track1_original_mp3_1.flac''\<rparr>"
  unfolding backup_path_of_def track1_name_parts
  apply (subst free_backup_path.simps)
  apply (subst free_backup_path.simps)
  apply (simp add: path_exists_def is_dir_def dirs_of_def ancestors_def exists_file_def
      mp3_library_def temp_output_of_def track1_def assms
      backup_folder_def backups_def backup_candidate_def str_nat_1)
  done

lemma convert_mp3_library:
  assumes e: "which_ffmpeg env" "mkdir_ok env"
    "ffmpeg env = (\<lambda>p f. FfmpegExit 0 [] (Some fresh_flac))"
    and h: "home env = [''home'', ''user'']" "directories env = []"
  shows "convert_to_flac env mp3_library track1
     = Inr (Some \<lparr>opened_from = track1, tags = []\<rparr>, converted_library)"
proof -
  have b: "convert_body env mp3_library track1 ''mp3'' (temp_output_of track1)
     = Inr (Some \<lparr>opened_from = track1, tags = []\<rparr>, converted_library)"
    unfolding convert_body_def Let_def e ffmpeg_result.case option.case backup_path_example[OF h]
    by (simp add: path_exists_def exists_file_def mp3_library_def converted_library_def
        temp_output_of_def track1_def backups_def validate_flac_file_def fresh_flac_def
        mp3_file_def tagged_flac_def path_stem_def path_suffix_def rfind_dot_def)
  show ?thesis
    unfolding convert_to_flac_def Let_def detect_mp3_library b using e by simp
qed

lemma convert_example:
  "convert_to_flac transcoder_env mp3_library track1
     = Inr (Some \<lparr>opened_from = track1, tags = []\<rparr>, converted_library)"
  by (rule convert_mp3_library) (simp_all add: transcoder_env_def offline_env_def)

theorem convert_to_flac_success_backup_witness:
  "\<exists>bp.
      map_of mp3_library track1 = Some mp3_file
    \<and> parent bp = backup_folder transcoder_env
    \<and> map_of mp3_library bp = None
    \<and> map_of converted_library bp = Some mp3_file
    \<and> validate_flac_file converted_library track1 = Inr \<lparr>opened_from = track1, tags = []\<rparr>"
proof -
  have m: "map_of mp3_library track1 = Some mp3_file"
    by (simp add: mp3_library_def)
  from convert_to_flac_success_backup[OF convert_example] m
  show ?thesis by auto
qed


section \<open>Properties of the metadata derivation\<close>

lemma fence_chars: "fence = [CHR 0x60, CHR 0x60, CHR 0x60]"
  by (simp add: fence_def numeral_3_eq_3)

text \<open>
  The fence is removed from a reply fenced as JSON, also with prose around the fence, and
  from a reply wrapped in bare fences, with or without the word \<^verbatim>\<open>json\<close> after the opening
  fence; a reply without fence is passed on as it is.
\<close>

lemma extract_json_examples:
  "extract_json (fence @ ''json'' @ [CHR 0x0A] @ ''{}'' @ [CHR 0x0A] @ fence) = ''{}''"
  "extract_json (''Here you go: '' @ fence @ ''json {} '' @ fence @ '' enjoy'') = ''{}''"
  "extract_json (fence @ [CHR 0x0A] @ ''{}'' @ [CHR 0x0A] @ fence) = ''{}''"
  "extract_json (fence @ '' json'' @ [CHR 0x0A] @ ''{}'' @ [CHR 0x0A] @ fence) = ''{}''"
  "extract_json ''{}'' = ''{}''"
  by (simp_all add: extract_json_def fence_chars py_strip_def strip_where_def py_isspace_def
      suffix_to_prefix)

text \<open>
  What the derivation can do: it returns \<^verbatim>\<open>None\<close>, or the value \<^verbatim>\<open>json.loads\<close> parsed from the
  reply, or it raises \<^verbatim>\<open>MarkupError\<close>; and it raises exactly when the call of the service
  raised with a text that the markup parser refuses in line 196. A reply that does not parse
  gives \<^verbatim>\<open>None\<close>.
\<close>

lemma get_metadata_result:
  "get_metadata_from_openrouter env filename context_files existing = Inl MarkupError
   \<or> get_metadata_from_openrouter env filename context_files existing = Inr JNull
   \<or> (\<exists>content v. chat env filename (take 10 context_files) existing = ApiContent content
         \<and> json_loads env (extract_json (py_strip content)) = Some v
         \<and> get_metadata_from_openrouter env filename context_files existing = Inr v)"
  by (auto simp: get_metadata_from_openrouter_def request_and_parse_def rich_print_def
      split: api_result.splits option.splits)

lemma get_metadata_raises_iff:
  "(\<exists>e. get_metadata_from_openrouter env filename context_files existing = Inl e)
   \<longleftrightarrow> (\<exists>text. chat env filename (take 10 context_files) existing = ApiRaised text
          \<and> markup_error env 196 [text] \<noteq> None)"
  by (auto simp: get_metadata_from_openrouter_def request_and_parse_def rich_print_def
      split: api_result.splits option.splits)

lemma get_metadata_unparsed:
  "chat env filename (take 10 context_files) existing = ApiContent content \<Longrightarrow>
   json_loads env (extract_json (py_strip content)) = None \<Longrightarrow>
   get_metadata_from_openrouter env filename context_files existing = Inr JNull"
  by (simp add: get_metadata_from_openrouter_def request_and_parse_def rich_print_def)

text \<open>When the derivation returns \<^verbatim>\<open>None\<close>, both loops count the file as failed and go on.\<close>

lemma file_normal_no_metadata:
  assumes "rich_print env 476 [name p] = Inr ()"
    and "validate_or_convert env 481 fs p = Inr (Some result, fs1)"
    and "\<not> fst (has_proper_metadata result)"
    and "get_metadata_from_openrouter env (name p) (sibling_names env fs1 (parent p)) [] = Inr JNull"
  shows "file_normal env dry_run p (c, fs) = Inr (c\<lparr>failed := failed c + 1\<rparr>, fs1)"
  using assms
  by (cases "has_proper_metadata result") (simp add: file_normal_def file_normal_body_def Let_def)

lemma file_audit_no_metadata:
  assumes "rich_print env 588 [name p] = Inr ()"
    and "validate_or_convert env 593 fs p = Inr (Some result, fs1)"
    and "get_current_metadata result \<noteq> [] \<longrightarrow>
           display_metadata_table env (snapshot_json (get_current_metadata result)) = Inr ()"
    and "get_metadata_from_openrouter env (name p) (sibling_names env fs1 (parent p))
           (get_current_metadata result) = Inr JNull"
  shows "file_audit env dry_run p (c, fs) = Inr (c\<lparr>failed := failed c + 1\<rparr>, fs1)"
  using assms
  by (cases "get_current_metadata result = []") (simp_all add: file_audit_def Let_def)

lemma quiet_prints:
  "markup_error env = (\<lambda>line texts. None) \<Longrightarrow> rich_print env line texts = Inr ()"
  "markup_error env = (\<lambda>line texts. None) \<Longrightarrow> try_print env line texts = Inr ()"
  by (simp_all add: rich_print_def try_print_def)

lemma example_envs_quiet:
  "markup_error offline_env = (\<lambda>line texts. None)"
  "markup_error transcoder_env = (\<lambda>line texts. None)"
  "markup_error broken_transcoder_env = (\<lambda>line texts. None)"
  "markup_error list_reply_env = (\<lambda>line texts. None)"
  "markup_error service_env = (\<lambda>line texts. None)"
  by (simp_all add: offline_env_def transcoder_env_def broken_transcoder_env_def
      list_reply_env_def service_env_def)

lemma example_envs_directories:
  "directories offline_env = []" "directories transcoder_env = []"
  "directories broken_transcoder_env = []" "directories list_reply_env = []"
  "directories service_env = []" "directories gateway_error_env = []"
  by (simp_all add: offline_env_def transcoder_env_def broken_transcoder_env_def
      list_reply_env_def service_env_def gateway_error_env_def)

lemma flac_endings:
  "suffix ''.flac'' ''track1.flac''" "suffix ''.flac'' ''track2.flac''"
  "\<not> suffix ''.FLAC'' ''track1.flac''" "\<not> suffix ''.FLAC'' ''track2.flac''"
  "\<not> suffix ''.flac'' ''music''" "\<not> suffix ''.FLAC'' ''music''"
  by (simp_all add: suffix_to_prefix)

lemma untagged_library_facts:
  "validate_or_convert env line untagged_library track1
     = Inr (Some \<lparr>opened_from = track1, tags = []\<rparr>, untagged_library)"
  "\<not> fst (has_proper_metadata \<lparr>opened_from = track1, tags = []\<rparr>)"
  "get_current_metadata \<lparr>opened_from = track1, tags = []\<rparr> = []"
  "name track1 = ''track1.flac''"
  by (simp_all add: validate_or_convert_def validate_flac_file_def untagged_library_def
      fresh_flac_def has_proper_metadata_def required_fields_def tag_has_value_def vc_get_def
      get_current_metadata_def snapshot_fields_def snapshot_entry_def
      track1_def)

lemma untagged_library_siblings:
  "directories env = [] \<Longrightarrow>
   sibling_names env untagged_library (parent track1) = [''track1.flac'']"
  by (simp add: sibling_names_def dirs_of_def ancestors_def untagged_library_def track1_def
      flac_endings)

lemma two_untagged_files:
  "directories env = [] \<Longrightarrow> flac_files_of env two_untagged [''music''] = [track1, track2]"
  by (simp add: flac_files_of_def rglob_def dirs_of_def ancestors_def two_untagged_def
      track1_def track2_def flac_endings)

lemma two_untagged_first:
  "validate_or_convert env line two_untagged track1
     = Inr (Some \<lparr>opened_from = track1, tags = []\<rparr>, two_untagged)"
  "directories env = [] \<Longrightarrow>
   sibling_names env two_untagged (parent track1) = [''track1.flac'', ''track2.flac'']"
  by (simp_all add: validate_or_convert_def validate_flac_file_def two_untagged_def fresh_flac_def
      sibling_names_def dirs_of_def ancestors_def track1_def track2_def flac_endings)

lemma offline_derivation:
  "get_metadata_from_openrouter offline_env filename context_files existing = Inr JNull"
  by (simp add: get_metadata_from_openrouter_def request_and_parse_def offline_env_def
      rich_print_def)

lemma gateway_derivation:
  "get_metadata_from_openrouter gateway_error_env filename context_files existing
     = Inl MarkupError"
  by (simp add: get_metadata_from_openrouter_def request_and_parse_def gateway_error_env_def
      rich_print_def)

lemma gateway_prints:
  "line \<noteq> 196 \<Longrightarrow> rich_print gateway_error_env line texts = Inr ()"
  by (simp add: rich_print_def gateway_error_env_def)

text \<open>
  C10 asks that the derivation never lets an exception reach its caller. Its handler prints
  the text of the caught exception as console markup (line 196). When the call of the
  service raises with a text in which a closing tag stands that closes nothing, here
  \<^verbatim>\<open>Error code: 502 - [/html]\<close>, that print raises \<^verbatim>\<open>MarkupError\<close> inside the handler: the
  exception leaves \<^verbatim>\<open>get_metadata_from_openrouter\<close>, and in both modes it ends the run of a
  folder with two valid files, without a summary, the first file in no bucket and the
  second never looked at.
\<close>

theorem markup_in_error_text_escapes:
  "chat gateway_error_env ''track1.flac'' [''track1.flac'', ''track2.flac''] []
     = ApiRaised ''Error code: 502 - [/html]''
   \<and> get_metadata_from_openrouter gateway_error_env ''track1.flac''
        [''track1.flac'', ''track2.flac''] [] = Inl MarkupError
   \<and> flac_files_of gateway_error_env two_untagged [''music''] = [track1, track2]
   \<and> process_folder_normal gateway_error_env two_untagged [''music''] False = Inl MarkupError
   \<and> process_folder_audit gateway_error_env two_untagged [''music''] False = Inl MarkupError"
proof -
  have c: "chat gateway_error_env ''track1.flac'' [''track1.flac'', ''track2.flac''] []
     = ApiRaised ''Error code: 502 - [/html]''"
    by (simp add: gateway_error_env_def gateway_text_def)
  have d: "directories gateway_error_env = []" by (rule example_envs_directories)
  have n: "file_normal gateway_error_env False track1 (no_counts, two_untagged) = Inl MarkupError"
    by (simp add: file_normal_def file_normal_body_def progress_exit_def Let_def gateway_prints
        two_untagged_first d
        untagged_library_facts gateway_derivation
        has_proper_metadata_def required_fields_def tag_has_value_def vc_get_def)
  have a: "file_audit gateway_error_env False track1 (no_counts, two_untagged) = Inl MarkupError"
    by (simp add: file_audit_def Let_def gateway_prints two_untagged_first d
        untagged_library_facts gateway_derivation)
  have f: "folder_exists gateway_error_env [''music'']"
    by (simp add: gateway_error_env_def offline_env_def)
  have l: "flac_files_of gateway_error_env two_untagged [''music''] = [track1, track2]"
    using d by (rule two_untagged_files)
  show ?thesis
    by (simp add: process_folder_normal_def process_folder_audit_def process_folder_def
        progress_exit_def l f n a c gateway_derivation gateway_prints)
qed


section \<open>Replies that are no object\<close>

lemma extract_json_plain: "extract_json (py_strip ''[1]'') = ''[1]''"
  by (simp add: extract_json_def py_strip_def strip_where_def py_isspace_def fence_chars)

lemma list_reply_derivation:
  "get_metadata_from_openrouter list_reply_env filename context_files existing
     = Inr (JArr [JInt 1])"
  by (simp add: get_metadata_from_openrouter_def request_and_parse_def list_reply_env_def
      offline_env_def extract_json_plain)

text \<open>
  C4 asks for a failure when the reply parses to something that is no object. The reply
  \<^verbatim>\<open>[1]\<close> is returned as the metadata: it is not \<^verbatim>\<open>None\<close>, it is truthy, and the callers'
  next step, \<^verbatim>\<open>display_metadata_table\<close> in normal mode and the comparison in audit mode,
  raises \<^verbatim>\<open>AttributeError\<close> on it.
\<close>

theorem list_reply_is_returned:
  "get_metadata_from_openrouter list_reply_env ''track1.flac'' [''track1.flac''] []
     = Inr (JArr [JInt 1])
   \<and> JArr [JInt 1] \<noteq> JNull
   \<and> truthy (JArr [JInt 1])
   \<and> display_metadata_table list_reply_env (JArr [JInt 1]) = Inl AttributeError
   \<and> detect_changes (JArr [JInt 1]) [] = Inl AttributeError
   \<and> file_normal list_reply_env False track1 (no_counts, untagged_library) = Inl AttributeError
   \<and> file_audit list_reply_env False track1 (no_counts, untagged_library) = Inl AttributeError"
  by (simp add: list_reply_derivation display_metadata_table_def detect_changes_def
      file_normal_def file_normal_body_def progress_exit_def file_audit_def Let_def
      untagged_library_facts
      quiet_prints example_envs_quiet
      has_proper_metadata_def required_fields_def tag_has_value_def vc_get_def)

section \<open>Properties of the counters\<close>

text \<open>
  A loop body that returns has added one to exactly one counter, so a run that reaches its
  summary has counted every path that was enumerated once, directories among them.
\<close>

lemma file_normal_one_bucket:
  assumes "file_normal env dry_run p (c, fs) = Inr (c', fs')"
  shows "c' = c\<lparr>processed := processed c + 1\<rparr> \<or> c' = c\<lparr>skipped := skipped c + 1\<rparr>
       \<or> c' = c\<lparr>failed := failed c + 1\<rparr>"
  using assms unfolding file_normal_def file_normal_body_def Let_def
  by (auto split: sum.splits prod.splits option.splits if_splits)

lemma file_audit_one_bucket:
  assumes "file_audit env dry_run p (c, fs) = Inr (c', fs')"
  shows "c' = c\<lparr>verified := verified c + 1\<rparr> \<or> c' = c\<lparr>updated := updated c + 1\<rparr>
       \<or> c' = c\<lparr>skipped := skipped c + 1\<rparr> \<or> c' = c\<lparr>failed := failed c + 1\<rparr>"
  using assms unfolding file_audit_def Let_def
  by (auto split: sum.splits prod.splits option.splits if_splits)

lemma run_files_counted:
  assumes step: "\<And>p c fs c' fs'. body p (c, fs) = Inr (c', fs') \<Longrightarrow> counted c' = counted c + 1"
  shows "run_files body ps (c, fs) = Inr (c', fs') \<Longrightarrow> counted c' = counted c + length ps"
proof (induction ps arbitrary: c fs)
  case Nil
  then show ?case by simp
next
  case (Cons p ps)
  from Cons.prems obtain c1 fs1 where b: "body p (c, fs) = Inr (c1, fs1)"
    and r: "run_files body ps (c1, fs1) = Inr (c', fs')"
    by (cases "body p (c, fs)") auto
  from step[OF b] Cons.IH[OF r] show ?case by simp
qed

lemma process_folder_summary:
  assumes "process_folder body panels progress env fs folder = Inr (Some (c, n), fs')"
  shows "run_files body (flac_files_of env fs folder) (no_counts, fs) = Inr (c, fs')"
    and "n = length (flac_files_of env fs folder)"
  using assms
  by (auto simp: process_folder_def Let_def split: if_splits sum.splits prod.splits)

lemma process_folder_normal_counted:
  assumes "process_folder_normal env fs folder dry_run = Inr (Some (c, n), fs')"
  shows "processed c + skipped c + failed c = n \<and> verified c = 0 \<and> updated c = 0
       \<and> n = length (flac_files_of env fs folder)"
proof -
  let ?body = "file_normal env dry_run"
  have step: "counted c' = counted c + 1 \<and> verified c' = verified c \<and> updated c' = updated c"
    if "?body p (c, fs) = Inr (c', fs')" for p c fs c' fs'
    using file_normal_one_bucket[OF that] by (auto simp: counted_def)
  have keep: "run_files ?body ps (c, fs) = Inr (c', fs') \<Longrightarrow>
      verified c' = verified c \<and> updated c' = updated c" for ps c fs c' fs'
  proof (induction ps arbitrary: c fs)
    case Nil then show ?case by simp
  next
    case (Cons p ps)
    from Cons.prems obtain c1 fs1 where b: "?body p (c, fs) = Inr (c1, fs1)"
      and r: "run_files ?body ps (c1, fs1) = Inr (c', fs')"
      by (cases "?body p (c, fs)") auto
    from step[OF b] Cons.IH[OF r] show ?case by simp
  qed
  from assms have run: "run_files ?body (flac_files_of env fs folder) (no_counts, fs) = Inr (c, fs')"
    and tot: "n = length (flac_files_of env fs folder)"
    unfolding process_folder_normal_def by (rule process_folder_summary)+
  from run_files_counted[of ?body, OF _ run] step
  have "counted c = counted no_counts + length (flac_files_of env fs folder)" by blast
  moreover from keep[OF run] have "verified c = 0" "updated c = 0"
    by (simp_all add: no_counts_def)
  ultimately show ?thesis using tot by (simp add: counted_def no_counts_def)
qed

lemma process_folder_audit_counted:
  assumes "process_folder_audit env fs folder dry_run = Inr (Some (c, n), fs')"
  shows "verified c + updated c + skipped c + failed c = n \<and> processed c = 0
       \<and> n = length (flac_files_of env fs folder)"
proof -
  let ?body = "file_audit env dry_run"
  have step: "counted c' = counted c + 1 \<and> processed c' = processed c"
    if "?body p (c, fs) = Inr (c', fs')" for p c fs c' fs'
    using file_audit_one_bucket[OF that] by (auto simp: counted_def)
  have keep: "run_files ?body ps (c, fs) = Inr (c', fs') \<Longrightarrow> processed c' = processed c"
    for ps c fs c' fs'
  proof (induction ps arbitrary: c fs)
    case Nil then show ?case by simp
  next
    case (Cons p ps)
    from Cons.prems obtain c1 fs1 where b: "?body p (c, fs) = Inr (c1, fs1)"
      and r: "run_files ?body ps (c1, fs1) = Inr (c', fs')"
      by (cases "?body p (c, fs)") auto
    from step[OF b] Cons.IH[OF r] show ?case by simp
  qed
  from assms have run: "run_files ?body (flac_files_of env fs folder) (no_counts, fs) = Inr (c, fs')"
    and tot: "n = length (flac_files_of env fs folder)"
    unfolding process_folder_audit_def by (rule process_folder_summary)+
  from run_files_counted[of ?body, OF _ run] step
  have "counted c = counted no_counts + length (flac_files_of env fs folder)" by blast
  moreover from keep[OF run] have "processed c = 0" by (simp add: no_counts_def)
  ultimately show ?thesis using tot by (simp add: counted_def no_counts_def)
qed

text \<open>
  A directory whose name ends in \<^verbatim>\<open>.flac\<close> is enumerated like a file; it cannot be opened, and
  without a transcoder both modes count it as failed.
\<close>

lemma directory_is_counted:
  "flac_files_of offline_env album_directory [''music'']
     = [\<lparr>parent = [''music''], name = ''live.flac''\<rparr>]"
  "process_folder_normal offline_env album_directory [''music''] False
     = Inr (Some (no_counts\<lparr>failed := 1\<rparr>, 1), album_directory)"
  "process_folder_audit offline_env album_directory [''music''] False
     = Inr (Some (no_counts\<lparr>failed := 1\<rparr>, 1), album_directory)"
proof -
  let ?d = "\<lparr>parent = [''music''], name = ''live.flac''\<rparr>"
  have e: "suffix ''.flac'' ''live.flac''" "\<not> suffix ''.FLAC'' ''live.flac''"
    "\<not> suffix ''.flac'' ''cover.jpg''" "\<not> suffix ''.FLAC'' ''cover.jpg''"
    by (simp_all add: suffix_to_prefix)
  show l: "flac_files_of offline_env album_directory [''music''] = [?d]"
    by (simp add: flac_files_of_def rglob_def dirs_of_def ancestors_def album_directory_def
        offline_env_def e flac_endings)
  have v: "validate_or_convert offline_env line album_directory ?d = Inr (None, album_directory)"
    for line
    by (simp add: validate_or_convert_def validate_flac_file_def album_directory_def
        convert_to_flac_def quiet_prints example_envs_quiet offline_env_def)
  have f: "folder_exists offline_env [''music'']" by (simp add: offline_env_def)
  show "process_folder_normal offline_env album_directory [''music''] False
     = Inr (Some (no_counts\<lparr>failed := 1\<rparr>, 1), album_directory)"
    by (simp add: process_folder_normal_def process_folder_def l f file_normal_def
        file_normal_body_def progress_exit_def Let_def v
        quiet_prints example_envs_quiet no_counts_def)
  show "process_folder_audit offline_env album_directory [''music''] False
     = Inr (Some (no_counts\<lparr>failed := 1\<rparr>, 1), album_directory)"
    by (simp add: process_folder_audit_def process_folder_def l f file_audit_def Let_def v
        quiet_prints example_envs_quiet no_counts_def)
qed

text \<open>
  C9 asks that every enumerated file adds one to exactly one counter. With two files and the
  reply \<^verbatim>\<open>[1]\<close> for the first, both modes end in the \<^verbatim>\<open>AttributeError\<close>: there is no
  summary, and neither file is counted.
\<close>

theorem list_reply_aborts_run:
  "flac_files_of list_reply_env two_untagged [''music''] = [track1, track2]
   \<and> process_folder_normal list_reply_env two_untagged [''music''] False = Inl AttributeError
   \<and> process_folder_audit list_reply_env two_untagged [''music''] False = Inl AttributeError"
proof -
  have d: "directories list_reply_env = []" by (rule example_envs_directories)
  have n: "file_normal list_reply_env False track1 (no_counts, two_untagged) = Inl AttributeError"
    by (simp add: file_normal_def file_normal_body_def progress_exit_def Let_def
        two_untagged_first untagged_library_facts
        list_reply_derivation display_metadata_table_def quiet_prints example_envs_quiet
        has_proper_metadata_def required_fields_def tag_has_value_def vc_get_def)
  have a: "file_audit list_reply_env False track1 (no_counts, two_untagged) = Inl AttributeError"
    by (simp add: file_audit_def Let_def two_untagged_first untagged_library_facts
        list_reply_derivation detect_changes_def quiet_prints example_envs_quiet)
  have f: "folder_exists list_reply_env [''music'']"
    by (simp add: list_reply_env_def offline_env_def)
  have l: "flac_files_of list_reply_env two_untagged [''music''] = [track1, track2]"
    using d by (rule two_untagged_files)
  show ?thesis
    by (simp add: process_folder_normal_def process_folder_audit_def process_folder_def
        progress_exit_def l f n a quiet_prints example_envs_quiet)
qed


section \<open>Conversion in a dry run, and a conversion whose output is not valid\<close>

lemma extract_json_composer_reply: "extract_json (py_strip composer_reply) = composer_reply"
  by (simp add: composer_reply_def dq_def extract_json_def py_strip_def strip_where_def
      py_isspace_def fence_chars)

lemma service_derivation:
  "get_metadata_from_openrouter service_env filename context_files existing
     = Inr (JObj [(''composer'', JStr ''Chopin, Frederic'')])"
  by (simp add: get_metadata_from_openrouter_def request_and_parse_def service_env_def
      extract_json_composer_reply)

lemma mp3_library_files:
  "directories env = [] \<Longrightarrow> flac_files_of env mp3_library [''music''] = [track1]"
  by (simp add: flac_files_of_def rglob_def dirs_of_def ancestors_def mp3_library_def
      track1_def backups_def flac_endings suffix_to_prefix)

lemma mp3_library_convert:
  "validate_or_convert service_env 481 mp3_library track1
     = Inr (Some \<lparr>opened_from = track1, tags = []\<rparr>, converted_library)"
proof -
  have v: "validate_flac_file mp3_library track1 = Inl (NotFlacHeader ''ID3_'')"
    by (simp add: validate_flac_file_def mp3_library_def mp3_file_def)
  have c: "convert_to_flac service_env mp3_library track1
     = Inr (Some \<lparr>opened_from = track1, tags = []\<rparr>, converted_library)"
    by (rule convert_mp3_library)
       (simp_all add: service_env_def transcoder_env_def offline_env_def)
  show ?thesis
    by (simp add: validate_or_convert_def v c quiet_prints example_envs_quiet)
qed

text \<open>
  C1 asks that a dry run changes no file. In a dry run of normal mode over a library whose
  one file holds MP3 data, the file is converted all the same: afterwards the source path
  holds the transcoder's output and the original stands in the backup directory. The run
  then counts the file as processed without writing tags.
\<close>

theorem dry_run_converts:
  "process_folder_normal service_env mp3_library [''music''] True
     = Inr (Some (no_counts\<lparr>processed := 1\<rparr>, 1), converted_library)
   \<and> map_of mp3_library track1 = Some mp3_file
   \<and> map_of converted_library track1 = Some fresh_flac
   \<and> fresh_flac \<noteq> mp3_file
   \<and> map_of mp3_library \<lparr>parent = backups, name = ''track1_original_mp3_1.flac''\<rparr> = None
   \<and> map_of converted_library \<lparr>parent = backups, name = ''track1_original_mp3_1.flac''\<rparr>
       = Some mp3_file"
proof -
  have t: "display_metadata_table service_env (JObj [(''composer'', JStr ''Chopin, Frederic'')])
      = Inr ()"
    by (simp add: display_metadata_table_def quiet_prints example_envs_quiet)
  have n: "file_normal service_env True track1 (no_counts, mp3_library)
      = Inr (no_counts\<lparr>processed := 1\<rparr>, converted_library)"
    by (simp add: file_normal_def file_normal_body_def Let_def mp3_library_convert quiet_prints
        example_envs_quiet
        service_derivation t untagged_library_facts
        has_proper_metadata_def required_fields_def tag_has_value_def vc_get_def no_counts_def)
  have f: "folder_exists service_env [''music'']"
    by (simp add: service_env_def transcoder_env_def offline_env_def)
  have l: "flac_files_of service_env mp3_library [''music''] = [track1]"
    by (rule mp3_library_files) (rule example_envs_directories)
  have p: "process_folder_normal service_env mp3_library [''music''] True
     = Inr (Some (no_counts\<lparr>processed := 1\<rparr>, 1), converted_library)"
    by (simp add: process_folder_normal_def process_folder_def progress_exit_def l f n
        quiet_prints example_envs_quiet)
  have q: "map_of mp3_library track1 = Some mp3_file"
    "map_of converted_library track1 = Some fresh_flac"
    "fresh_flac \<noteq> mp3_file"
    "map_of mp3_library \<lparr>parent = backups, name = ''track1_original_mp3_1.flac''\<rparr> = None"
    "map_of converted_library \<lparr>parent = backups, name = ''track1_original_mp3_1.flac''\<rparr>
       = Some mp3_file"
    by (simp_all add: mp3_library_def converted_library_def track1_def backups_def
        fresh_flac_def mp3_file_def)
  from p q show ?thesis by simp
qed

text \<open>Tag writes are held back as announced: a dry run leaves a valid file as it is.\<close>

lemma dry_run_valid_file_untouched:
  assumes "validate_flac_file fs p = Inr a"
  shows "file_normal env True p (c, fs) = Inr (c', fs') \<Longrightarrow> fs' = fs"
    and "file_audit env True p (c, fs) = Inr (c', fs') \<Longrightarrow> fs' = fs"
proof -
  have v: "validate_or_convert env line fs p = Inr (Some a, fs)" for line
    using assms by (simp add: validate_or_convert_def)
  show "file_normal env True p (c, fs) = Inr (c', fs') \<Longrightarrow> fs' = fs"
    unfolding file_normal_def file_normal_body_def Let_def prod.case v
    by (auto split: sum.splits prod.splits option.splits if_splits)
  show "file_audit env True p (c, fs) = Inr (c', fs') \<Longrightarrow> fs' = fs"
    unfolding file_audit_def Let_def prod.case v
    by (auto split: sum.splits prod.splits option.splits if_splits)
qed

text \<open>
  The failure paths of the conversion that end before the original is moved: the transcoder
  is missing, it raises, it exits with an error, or it exits well without an output file
  (and no stale temporary file is there). Whenever the call returns on one of them, it
  returns \<^verbatim>\<open>None\<close> and has left every file but the temporary output as it was; and it does
  return when the markup parser accepts the texts and the temporary path is no directory.
\<close>

lemma unlink_if_exists_other:
  "unlink_if_exists env t fs = Inr fs' \<Longrightarrow> q \<noteq> t \<Longrightarrow> map_of fs' q = map_of fs q"
  by (auto simp: unlink_if_exists_def delete_conv' split: if_splits)

lemma convert_to_flac_early_return:
  assumes early: "\<not> which_ffmpeg env
      \<or> ffmpeg env p (map_of fs p) = FfmpegRaised
      \<or> (\<exists>rc err w. ffmpeg env p (map_of fs p) = FfmpegExit rc err w \<and> rc \<noteq> 0)
      \<or> (\<exists>err. ffmpeg env p (map_of fs p) = FfmpegExit 0 err None)
          \<and> \<not> path_exists env fs (temp_output_of p)"
    and ret: "convert_to_flac env fs p = Inr (r, fs')"
  shows "r = None \<and> (\<forall>q. q \<noteq> temp_output_of p \<longrightarrow> map_of fs' q = map_of fs q)"
proof (cases "which_ffmpeg env")
  case False
  with ret show ?thesis by (simp add: convert_to_flac_def)
next
  case True
  let ?t = "temp_output_of p"
  from ret True have m: "mkdir_ok env"
    by (auto simp: convert_to_flac_def Let_def split: if_splits)
  from early True consider
      (raised) "ffmpeg env p (map_of fs p) = FfmpegRaised"
    | (failed) rc err w where "ffmpeg env p (map_of fs p) = FfmpegExit rc err w" "rc \<noteq> 0"
    | (silent) err where "ffmpeg env p (map_of fs p) = FfmpegExit 0 err None"
        "\<not> path_exists env fs ?t"
    by blast
  then show ?thesis
  proof cases
    case raised
    with ret True m show ?thesis
      by (auto simp: convert_to_flac_def convert_body_def Let_def
          dest: unlink_if_exists_other split: sum.splits)
  next
    case (failed rc err w)
    define fs1 where "fs1 = (case w of Some out \<Rightarrow> AList.update ?t out fs | None \<Rightarrow> fs)"
    have o: "q \<noteq> ?t \<Longrightarrow> map_of fs1 q = map_of fs q" for q
      by (cases w) (simp_all add: fs1_def update_conv')
    from ret True m failed have "\<exists>fs2. unlink_if_exists env ?t fs1 = Inr fs2 \<and> r = None \<and> fs' = fs2"
      unfolding fs1_def
      by (auto simp: convert_to_flac_def convert_body_def Let_def split: sum.splits)
    then show ?thesis using o by (auto dest: unlink_if_exists_other)
  next
    case (silent err)
    with ret True m show ?thesis
      by (simp add: convert_to_flac_def convert_body_def Let_def)
  qed
qed

lemma convert_to_flac_early_failure:
  assumes early: "\<not> which_ffmpeg env
      \<or> mkdir_ok env \<and> ffmpeg env p (map_of fs p) = FfmpegRaised
      \<or> mkdir_ok env \<and> (\<exists>rc err w. ffmpeg env p (map_of fs p) = FfmpegExit rc err w \<and> rc \<noteq> 0)
      \<or> mkdir_ok env \<and> (\<exists>err. ffmpeg env p (map_of fs p) = FfmpegExit 0 err None)
          \<and> \<not> path_exists env fs (temp_output_of p)"
    and quiet: "markup_error env = (\<lambda>line texts. None)"
    and nodir: "\<not> is_dir env fs (temp_output_of p)"
  shows "\<exists>fs'. convert_to_flac env fs p = Inr (None, fs')
      \<and> (\<forall>q. q \<noteq> temp_output_of p \<longrightarrow> map_of fs' q = map_of fs q)"
proof -
  let ?t = "temp_output_of p"
  have u: "\<exists>fs2. unlink_if_exists env ?t fs1 = Inr fs2"
    if "fs1 = fs \<or> exists_file fs1 ?t" for fs1
    using that nodir by (auto simp: unlink_if_exists_def)
  have w: "exists_file (AList.update ?t out fs) ?t" for out
    by (simp add: exists_file_def update_conv')
  have "\<exists>r fs'. convert_to_flac env fs p = Inr (r, fs')"
  proof (cases "which_ffmpeg env")
    case False
    then show ?thesis by (simp add: convert_to_flac_def)
  next
    case True
    with early consider
        (raised) "mkdir_ok env" "ffmpeg env p (map_of fs p) = FfmpegRaised"
      | (failed) rc err w where "mkdir_ok env" "ffmpeg env p (map_of fs p) = FfmpegExit rc err w"
          "rc \<noteq> 0"
      | (silent) err where "mkdir_ok env" "ffmpeg env p (map_of fs p) = FfmpegExit 0 err None"
          "\<not> path_exists env fs ?t"
      by blast
    then show ?thesis
    proof cases
      case raised
      from u[of fs] obtain fs2 where "unlink_if_exists env ?t fs = Inr fs2" by blast
      with True raised show ?thesis
        by (simp add: convert_to_flac_def convert_body_def Let_def quiet_prints[OF quiet])
    next
      case (failed rc err wr)
      define fs1 where "fs1 = (case wr of Some out \<Rightarrow> AList.update ?t out fs | None \<Rightarrow> fs)"
      have "fs1 = fs \<or> exists_file fs1 ?t" by (cases wr) (simp_all add: fs1_def w)
      from u[OF this] obtain fs2 where "unlink_if_exists env ?t fs1 = Inr fs2" by blast
      with True failed show ?thesis
        unfolding fs1_def
        by (simp add: convert_to_flac_def convert_body_def Let_def quiet_prints[OF quiet])
    next
      case (silent err)
      with True show ?thesis
        by (simp add: convert_to_flac_def convert_body_def Let_def)
    qed
  qed
  then obtain r fs' where ret: "convert_to_flac env fs p = Inr (r, fs')" by blast
  from early have "\<not> which_ffmpeg env
      \<or> ffmpeg env p (map_of fs p) = FfmpegRaised
      \<or> (\<exists>rc err w. ffmpeg env p (map_of fs p) = FfmpegExit rc err w \<and> rc \<noteq> 0)
      \<or> (\<exists>err. ffmpeg env p (map_of fs p) = FfmpegExit 0 err None)
          \<and> \<not> path_exists env fs ?t"
    by blast
  from convert_to_flac_early_return[OF this ret] ret show ?thesis by blast
qed

lemma backup_path_single:
  "backup_path_of broken_transcoder_env
     (AList.update (temp_output_of track1) empty_output single_mp3) track1 ''mp3''
   = \<lparr>parent = backups, name = ''track1_original_mp3.flac''\<rparr>"
  unfolding backup_path_of_def track1_name_parts
  apply (subst free_backup_path.simps)
  apply (simp add: path_exists_def is_dir_def dirs_of_def ancestors_def exists_file_def
      single_mp3_def temp_output_of_def track1_def
      backup_folder_def broken_transcoder_env_def offline_env_def backups_def)
  done

text \<open>
  C2 asks that every failure of the conversion leaves the source as it was and no backup of
  it. Here the transcoder exits with code 0 and has written an empty output file: the
  original is moved to the backup directory, the empty file is moved to the source path,
  the validation of the new file fails and the call returns \<^verbatim>\<open>None\<close>.
\<close>

theorem invalid_output_replaces_source:
  "convert_to_flac broken_transcoder_env single_mp3 track1
     = Inr (None, [(\<lparr>parent = backups, name = ''track1_original_mp3.flac''\<rparr>, mp3_file),
                   (track1, empty_output)])
   \<and> map_of single_mp3 track1 = Some mp3_file
   \<and> empty_output \<noteq> mp3_file
   \<and> map_of single_mp3 \<lparr>parent = backups, name = ''track1_original_mp3.flac''\<rparr> = None"
proof -
  have e: "which_ffmpeg broken_transcoder_env" "mkdir_ok broken_transcoder_env"
    "ffmpeg broken_transcoder_env = (\<lambda>p f. FfmpegExit 0 [] (Some empty_output))"
    by (simp_all add: broken_transcoder_env_def offline_env_def)
  have d: "detect_actual_format single_mp3 track1 = ''mp3''"
    by (simp add: detect_actual_format_def single_mp3_def mp3_file_def detect_header_def)
  have b: "convert_body broken_transcoder_env single_mp3 track1 ''mp3'' (temp_output_of track1)
     = Inr (None, [(\<lparr>parent = backups, name = ''track1_original_mp3.flac''\<rparr>, mp3_file),
                   (track1, empty_output)])"
    unfolding convert_body_def Let_def e ffmpeg_result.case option.case backup_path_single
    by (simp add: path_exists_def exists_file_def single_mp3_def temp_output_of_def track1_def
        backups_def validate_flac_file_def empty_output_def mp3_file_def path_stem_def
        path_suffix_def rfind_dot_def quiet_prints example_envs_quiet)
  have c: "convert_to_flac broken_transcoder_env single_mp3 track1
     = Inr (None, [(\<lparr>parent = backups, name = ''track1_original_mp3.flac''\<rparr>, mp3_file),
                   (track1, empty_output)])"
    unfolding convert_to_flac_def Let_def d b using e by simp
  have q: "map_of single_mp3 track1 = Some mp3_file" "empty_output \<noteq> mp3_file"
    "map_of single_mp3 \<lparr>parent = backups, name = ''track1_original_mp3.flac''\<rparr> = None"
    by (simp_all add: single_mp3_def track1_def backups_def empty_output_def mp3_file_def)
  from c q show ?thesis by simp
qed

end
